theory Spec2Isabelle
  imports Main "HOL-Library.Sublist"
begin

section \<open>JavaScript values\<close>

text \<open>
  The handler is dynamically typed. Option values are kept as tagged JavaScript values so
  that \<open>typeof\<close> and truthiness can be written out; \<open>'f\<close> is the type of the functions
  that may be stored. Numbers are integers here (status codes); \<open>NaN\<close> and fractions are
  outside the model.
\<close>

datatype 'f jsval =
    JUndefined
  | JNull
  | JBool bool
  | JNum int
  | JStr string
  | JObj
  | JFun 'f

datatype jstype = TUndefined | TObject | TBoolean | TNumber | TString | TFunction

fun typeof :: "'f jsval \<Rightarrow> jstype" where
  "typeof JUndefined = TUndefined"
| "typeof JNull = TObject"
| "typeof (JBool b) = TBoolean"
| "typeof (JNum n) = TNumber"
| "typeof (JStr s) = TString"
| "typeof JObj = TObject"
| "typeof (JFun f) = TFunction"

fun truthy :: "'f jsval \<Rightarrow> bool" where
  "truthy JUndefined = False"
| "truthy JNull = False"
| "truthy (JBool b) = b"
| "truthy (JNum n) = (n \<noteq> 0)"
| "truthy (JStr s) = (s \<noteq> [])"
| "truthy JObj = True"
| "truthy (JFun f) = True"

text \<open>
  A value that is a string or \<open>undefined\<close> is a \<open>string option\<close>, a number or
  \<open>undefined\<close> an \<open>int option\<close>. Strings are kept as their UTF-8 bytes, so that
  \<open>new Buffer(s, 'utf8')\<close> is the string itself and \<open>body.length\<close> its length; the
  characters the handler looks for are all ASCII and never part of a longer UTF-8 sequence.
\<close>

fun truthy_str :: "string option \<Rightarrow> bool" where
  "truthy_str None = False"
| "truthy_str (Some s) = (s \<noteq> [])"

fun truthy_num :: "int option \<Rightarrow> bool" where
  "truthy_num None = False"
| "truthy_num (Some n) = (n \<noteq> 0)"

text \<open>\<open>a || b\<close> on strings.\<close>

definition or_str :: "string option \<Rightarrow> string option \<Rightarrow> string option" where
  "or_str a b = (if truthy_str a then a else b)"

text \<open>\<open>String(x)\<close>, also the coercion of \<open>x + '\n'\<close>.\<close>

fun js_String :: "string option \<Rightarrow> string" where
  "js_String None = ''undefined''"
| "js_String (Some s) = s"

section \<open>Requests, errors and the runtime\<close>

record request =
  req_method :: string
  url :: string
  originalUrl :: "string option"
  readable :: bool
  has_unpipe :: bool
  close_listeners :: "string list"

text \<open>
  \<open>has_unpipe\<close> is \<open>typeof stream.unpipe === 'function'\<close>; \<open>close_listeners\<close> are the
  names of the listeners of the request's \<open>close\<close> event, in order.
\<close>

record jserror =
  err_status :: "int option"
  err_message :: "string option"
  err_stack :: "string option"
  err_name :: "string option"
  err_toString :: string

text \<open>
  An error argument is a \<open>jserror option\<close>: \<open>None\<close> is any falsy argument. The fields are
  the attributes the handler reads; \<open>err_toString\<close> is what \<open>String(err)\<close> and
  \<open>err.toString()\<close> give.
\<close>

datatype negotiated = Html | Text | NoneAcceptable

text \<open>
  What the handler takes from Node.js and from its dependencies: the table
  \<open>http.STATUS_CODES\<close>, \<open>process.env.NODE_ENV\<close>, and the answer of
  \<open>accepts(req).types('html', 'text')\<close>, which is \<open>'html'\<close>, \<open>'text'\<close> or \<open>false\<close>.
\<close>

record runtime =
  STATUS_CODES :: "int \<Rightarrow> string option"
  NODE_ENV :: "string option"
  accepts_types :: "request \<Rightarrow> negotiated"

text \<open>\<open>http.STATUS_CODES[status]\<close>; the status may be \<open>undefined\<close>.\<close>

fun status_text :: "runtime \<Rightarrow> int option \<Rightarrow> string option" where
  "status_text rt None = None"
| "status_text rt (Some n) = STATUS_CODES rt n"

section \<open>Body builders\<close>

text \<open>
  Modelled from the spec: the \<open>escape-html\<close> dependency, which is not part of the
  sources. The spec has it escape \<open>< > & " '\<close> for embedding in HTML; the entities are
  the usual ones.
\<close>

fun escape_char :: "char \<Rightarrow> string" where
  "escape_char c =
     (if c = CHR ''&'' then ''&amp;''
      else if c = CHR 0x22 then ''&quot;''
      else if c = CHR 0x27 then ''&#39;''
      else if c = CHR ''<'' then ''&lt;''
      else if c = CHR ''>'' then ''&gt;''
      else [c])"

definition escapeHtml :: "string option \<Rightarrow> string" where
  "escapeHtml html = concat (map escape_char (js_String html))"

text \<open>\<open>.replace(/\n/g, '<br>')\<close>\<close>

definition replace_newlines :: "string \<Rightarrow> string" where
  "replace_newlines s = concat (map (\<lambda>c. if c = CHR ''\<newline>'' then ''<br>'' else [c]) s)"

text \<open>\<open>.replace(/  /g, ' &nbsp;')\<close>: matches are found left to right and do not overlap.\<close>

fun replace_spaces :: "string \<Rightarrow> string" where
  "replace_spaces (a # b # cs) =
     (if a = CHR '' '' \<and> b = CHR '' '' then '' &nbsp;'' @ replace_spaces cs
      else a # replace_spaces (b # cs))"
| "replace_spaces cs = cs"

record body =
  bytes :: string
  body_type :: string

definition constructHtmlBody :: "runtime \<Rightarrow> int option \<Rightarrow> string option \<Rightarrow> body" where
  "constructHtmlBody rt status message =
     (let msg = replace_spaces (replace_newlines (escapeHtml message));
          html = ''<!doctype html>\<newline>''
            @ ''<html lang=en>\<newline>''
            @ ''<head>\<newline>''
            @ ''<meta charset=utf-8>\<newline>''
            @ ''<title>'' @ escapeHtml (status_text rt status) @ ''</title>\<newline>''
            @ ''</head>\<newline>''
            @ ''<body>\<newline>''
            @ msg @ ''\<newline>''
            @ ''</body>\<newline>''
      in \<lparr>bytes = html, body_type = ''text/html; charset=utf-8''\<rparr>)"

definition constructTextBody :: "int option \<Rightarrow> string option \<Rightarrow> body" where
  "constructTextBody status message =
     (let msg = js_String message @ ''\<newline>''
      in \<lparr>bytes = msg, body_type = ''text/plain; charset=utf-8''\<rparr>)"

section \<open>The response, and the calls the handler makes\<close>

text \<open>
  The request and the response belong to Node.js. The handler reads \<open>res.statusCode\<close>
  and \<open>res._header\<close> (\<open>header_sent\<close> is its truthiness), assigns \<open>res.statusCode\<close>,
  and calls methods on both objects. Each assignment and call is recorded, in order, as
  an \<open>effect\<close>; what Node.js does inside the calls is not modelled. The calls of
  \<open>debug\<close> only log and are left out.
\<close>

record response =
  statusCode :: "int option"
  header_sent :: bool

datatype hvalue = HStr string | HNum nat

type_synonym callback = nat

datatype effect =
    AssignStatus "int option"
  | SetHeader string hvalue
  | End "body option"
  | SocketDestroy
  | Unpipe
  | CallListener string
  | OnceEnd "int option" body
  | Resume
  | Defer "callback jsval" jserror

text \<open>
  \<open>end_listeners\<close> are the listeners registered on the request with
  \<open>req.once('end', write)\<close> that have not run yet: each is the closure \<open>write\<close> of one
  call of \<open>send\<close>, that is its \<open>status\<close> and \<open>body\<close>.
\<close>

record world =
  req :: request
  res :: response
  effects :: "effect list"
  end_listeners :: "(int option \<times> body) list"

definition perform :: "effect \<Rightarrow> world \<Rightarrow> world" where
  "perform e w = w\<lparr>effects := effects w @ [e]\<rparr>"

text \<open>\<open>res.statusCode = status\<close>\<close>

definition set_statusCode :: "int option \<Rightarrow> world \<Rightarrow> world" where
  "set_statusCode status w =
     perform (AssignStatus status) (w\<lparr>res := (res w)\<lparr>statusCode := status\<rparr>\<rparr>)"

section \<open>Transmitter\<close>

text \<open>
  The function \<open>write\<close> local to \<open>send\<close>, named \<open>write_res\<close> because \<open>write\<close>
  is a keyword of Isabelle.
\<close>

definition write_res :: "int option \<Rightarrow> body \<Rightarrow> world \<Rightarrow> world" where
  "write_res status body w =
     (let w1 = set_statusCode status w;
          w2 = perform (SetHeader ''X-Content-Type-Options'' (HStr ''nosniff'')) w1;
          w3 = perform (SetHeader ''Content-Type'' (HStr (body_type body))) w2;
          w4 = perform (SetHeader ''Content-Length'' (HNum (length (bytes body)))) w3
      in if req_method (req w4) = ''HEAD'' then perform (End None) w4
         else perform (End (Some body)) w4)"

text \<open>
  \<open>unpipe\<close>: the new-style call, or the Node.js 0.8 loop that invokes the \<open>close\<close>
  listeners named \<open>cleanup\<close> and \<open>onclose\<close>.
\<close>

definition unpipe :: "world \<Rightarrow> world" where
  "unpipe w =
     (if has_unpipe (req w) then perform Unpipe w
      else fold (\<lambda>listener w'.
                   if listener \<noteq> ''cleanup'' \<and> listener \<noteq> ''onclose'' then w'
                   else perform (CallListener listener) w')
             (close_listeners (req w)) w)"

definition once_end :: "int option \<Rightarrow> body \<Rightarrow> world \<Rightarrow> world" where
  "once_end status body w =
     perform (OnceEnd status body) (w\<lparr>end_listeners := end_listeners w @ [(status, body)]\<rparr>)"

definition send :: "int option \<Rightarrow> body \<Rightarrow> world \<Rightarrow> world" where
  "send status body w =
     (if \<not> readable (req w) then write_res status body w
      else let w1 = unpipe w;
               w2 = once_end status body w1
           in perform Resume w2)"

text \<open>
  The request's \<open>end\<close> event, as Node.js delivers it to \<open>once\<close> listeners: each
  runs, in the order of registration, and is removed.
\<close>

definition emit_end :: "world \<Rightarrow> world" where
  "emit_end w =
     fold (\<lambda>(status, body). write_res status body) (end_listeners w) (w\<lparr>end_listeners := []\<rparr>)"

section \<open>The handler of \<open>src/unnamed/part_000\<close> (options \<open>message\<close>, \<open>stacktrace\<close>)\<close>

type_synonym msgfn = "jserror \<Rightarrow> int option \<Rightarrow> string option"

record options =
  opt_message :: "msgfn jsval"
  opt_onerror :: "callback jsval"
  opt_stacktrace :: "unit jsval"
  opt_env :: "unit jsval"

text \<open>
  The options bag; a key that is absent is \<open>JUndefined\<close>. \<open>no_options\<close> is \<open>{}\<close>,
  taken when the argument itself is missing.
\<close>

definition no_options :: options where
  "no_options = \<lparr>opt_message = JUndefined, opt_onerror = JUndefined,
                  opt_stacktrace = JUndefined, opt_env = JUndefined\<rparr>"

text \<open>\<open>x >= 400 && x < 600\<close> and \<open>x < 400\<close>; both are false of \<open>undefined\<close>.\<close>

fun status_in_range :: "int option \<Rightarrow> bool" where
  "status_in_range None = False"
| "status_in_range (Some n) = (400 \<le> n \<and> n < 600)"

fun below_400 :: "int option \<Rightarrow> bool" where
  "below_400 None = False"
| "below_400 (Some n) = (n < 400)"

text \<open>\<open>a || d\<close> where \<open>d\<close> is a string.\<close>

fun or_default :: "string option \<Rightarrow> string \<Rightarrow> string" where
  "or_default None d = d"
| "or_default (Some s) d = (if s \<noteq> [] then s else d)"

definition getDefaultErrorMessage :: "jserror \<Rightarrow> string option" where
  "getDefaultErrorMessage err =
     (if status_in_range (err_status err) then err_message err else None)"

text \<open>
  After the check in \<open>finalhandler\<close>, \<open>message\<close> is \<open>false\<close> or a function:
  a \<open>msgfn option\<close>.
\<close>

definition getErrorMessage :: "runtime \<Rightarrow> jserror \<Rightarrow> int option \<Rightarrow> msgfn option \<Rightarrow> string option" where
  "getErrorMessage rt err status message =
     (let msg = (case message of Some f \<Rightarrow> f err status | None \<Rightarrow> None)
      in or_str msg (status_text rt status))"

definition getErrorStack :: "jserror \<Rightarrow> int option \<Rightarrow> msgfn option \<Rightarrow> string" where
  "getErrorStack err status message =
     (let stack = or_default (err_stack err) []
      in case message of
           Some f \<Rightarrow>
             let msg = or_default (or_str (f err status) (err_message err)) (err_toString err);
                 stack' = (if CHR ''\<newline>'' \<in> set stack
                           then dropWhile (\<lambda>c. c \<noteq> CHR ''\<newline>'') stack else stack)
             in if truthy_str (err_name err) then js_String (err_name err) @ '': '' @ msg @ stack'
                else msg @ stack'
         | None \<Rightarrow> if stack = [] then err_toString err else stack)"

datatype config_error = TypeError

record handler =
  message :: "msgfn option"
  onerror :: "callback jsval"
  stacktrace :: bool

text \<open>
  \<open>options.message === true ? getDefaultErrorMessage : options.message || false\<close>
\<close>

fun normalize_message :: "msgfn jsval \<Rightarrow> msgfn jsval" where
  "normalize_message (JBool True) = JFun (\<lambda>err status. getDefaultErrorMessage err)"
| "normalize_message m = (if truthy m then m else JBool False)"

text \<open>
  \<open>finalhandler(req, res, options)\<close> throws or returns a function of \<open>err\<close>. The model
  returns the variables that function closes over; \<open>responder\<close> is the function, and
  takes the request and the response (in the \<open>world\<close>) when it is called.
\<close>

definition finalhandler :: "options option \<Rightarrow> config_error + handler" where
  "finalhandler options =
     (let options = (case options of Some opts \<Rightarrow> opts | None \<Rightarrow> no_options);
          message = normalize_message (opt_message options)
      in if typeof message \<noteq> TBoolean \<and> typeof message \<noteq> TFunction then Inl TypeError
         else Inr \<lparr>message = (case message of JFun f \<Rightarrow> Some f | _ \<Rightarrow> None),
                   onerror = opt_onerror options,
                   stacktrace = truthy (opt_stacktrace options)\<rparr>)"

text \<open>The status and the message: the first \<open>if\<close> of the returned function.\<close>

definition resolve :: "runtime \<Rightarrow> handler \<Rightarrow> jserror option \<Rightarrow> world \<Rightarrow> int option \<times> string option" where
  "resolve rt h err w =
     (let status = statusCode (res w)
      in case err of
           Some e \<Rightarrow>
             let status1 = (if \<not> truthy_num status \<or> below_400 status then Some 500 else status);
                 status2 = (if status_in_range (err_status e) then err_status e else status1);
                 msg = (if stacktrace h then Some (getErrorStack e status2 (message h))
                        else getErrorMessage rt e status2 (message h))
             in (status2, msg)
         | None \<Rightarrow>
             (Some 404,
              Some (''Cannot '' @ req_method (req w) @ '' ''
                    @ or_default (originalUrl (req w)) (url (req w)))))"

text \<open>\<open>if (err && onerror) defer(onerror, err, req, res)\<close>\<close>

definition schedule_onerror :: "callback jsval \<Rightarrow> jserror option \<Rightarrow> world \<Rightarrow> world" where
  "schedule_onerror cb err w =
     (case err of
        Some e \<Rightarrow> if truthy cb then perform (Defer cb e) w else w
      | None \<Rightarrow> w)"

text \<open>The \<open>switch\<close> on the negotiated type.\<close>

definition constructBody :: "runtime \<Rightarrow> negotiated \<Rightarrow> int option \<Rightarrow> string option \<Rightarrow> body" where
  "constructBody rt type status msg =
     (case type of
        Html \<Rightarrow> constructHtmlBody rt status msg
      | _ \<Rightarrow> constructTextBody status msg)"

definition responder :: "runtime \<Rightarrow> handler \<Rightarrow> jserror option \<Rightarrow> world \<Rightarrow> world" where
  "responder rt h err w =
     (let (status, msg) = resolve rt h err w;
          w1 = schedule_onerror (onerror h) err w
      in if header_sent (res w1) then perform SocketDestroy w1
         else let type = accepts_types rt (req w1);
                  body = constructBody rt type status msg
              in send status body w1)"

section \<open>The handler of \<open>src/index.js\<close> (option \<open>env\<close>)\<close>

record handler_env =
  env :: "unit jsval"
  env_onerror :: "callback jsval"

text \<open>
  \<open>options.env || process.env.NODE_ENV || 'development'\<close>. This version has no
  \<open>throw\<close>; the result is a sum only to be read like that of \<open>finalhandler\<close>.
\<close>

definition finalhandler_env :: "runtime \<Rightarrow> options option \<Rightarrow> config_error + handler_env" where
  "finalhandler_env rt options =
     (let options = (case options of Some opts \<Rightarrow> opts | None \<Rightarrow> no_options);
          env = (if truthy (opt_env options) then opt_env options
                 else JStr (or_default (NODE_ENV rt) ''development''))
      in Inr \<lparr>env = env, env_onerror = opt_onerror options\<rparr>)"

text \<open>
  This version keeps no local status: it assigns \<open>res.statusCode\<close> as it resolves the
  status, and reads it back.
\<close>

definition resolve_env :: "runtime \<Rightarrow> handler_env \<Rightarrow> jserror option \<Rightarrow> world \<Rightarrow> world \<times> string option" where
  "resolve_env rt h err w =
     (case err of
        Some e \<Rightarrow>
          let w1 = (if \<not> truthy_num (statusCode (res w)) \<or> below_400 (statusCode (res w))
                    then set_statusCode (Some 500) w else w);
              w2 = (if truthy_num (err_status e) then set_statusCode (err_status e) w1 else w1);
              msg = (if env h = JStr ''production'' then status_text rt (statusCode (res w2))
                     else Some (or_default (err_stack e) (err_toString e)))
          in (w2, msg)
      | None \<Rightarrow>
          (set_statusCode (Some 404) w,
           Some (''Cannot '' @ req_method (req w) @ '' ''
                 @ or_default (originalUrl (req w)) (url (req w)))))"

definition responder_env :: "runtime \<Rightarrow> handler_env \<Rightarrow> jserror option \<Rightarrow> world \<Rightarrow> world" where
  "responder_env rt h err w =
     (let (w0, msg) = resolve_env rt h err w;
          w1 = schedule_onerror (env_onerror h) err w0
      in if header_sent (res w1) then perform SocketDestroy w1
         else let type = accepts_types rt (req w1);
                  body = constructBody rt type (statusCode (res w1)) msg
              in send (statusCode (res w1)) body w1)"

section \<open>Vocabulary of the properties\<close>

text \<open>
  The writes on the response: the assignment of the status code, a header, the end of the
  response with or without a payload.
\<close>

fun is_write :: "effect \<Rightarrow> bool" where
  "is_write (AssignStatus s) = True"
| "is_write (SetHeader k v) = True"
| "is_write (End b) = True"
| "is_write e = False"

fun is_header_or_body_write :: "effect \<Rightarrow> bool" where
  "is_header_or_body_write (SetHeader k v) = True"
| "is_header_or_body_write (End b) = True"
| "is_header_or_body_write e = False"

text \<open>What one run of \<open>write\<close> records, given the payload it ends with.\<close>

definition written :: "int option \<Rightarrow> body \<Rightarrow> body option \<Rightarrow> effect list" where
  "written status body payload =
     [AssignStatus status,
      SetHeader ''X-Content-Type-Options'' (HStr ''nosniff''),
      SetHeader ''Content-Type'' (HStr (body_type body)),
      SetHeader ''Content-Length'' (HNum (length (bytes body))),
      End payload]"

text \<open>
  What the request's \<open>end\<close> event records for the listeners \<open>ls\<close>: one run of
  \<open>write\<close> for each, in order.
\<close>

definition end_writes :: "request \<Rightarrow> (int option \<times> body) list \<Rightarrow> effect list" where
  "end_writes r ls =
     concat (map (\<lambda>(s, b). written s b (if req_method r = ''HEAD'' then None else Some b)) ls)"

text \<open>What \<open>unpipe\<close> records on a request.\<close>

definition unpipe_calls :: "request \<Rightarrow> effect list" where
  "unpipe_calls r =
     (if has_unpipe r then [Unpipe]
      else map CallListener (filter (\<lambda>n. n = ''cleanup'' \<or> n = ''onclose'') (close_listeners r)))"

text \<open>Some \<open><\<close> of the text is followed at once by \<open>s\<close>.\<close>

fun lt_then_s :: "string \<Rightarrow> bool" where
  "lt_then_s [] = False"
| "lt_then_s [a] = False"
| "lt_then_s (a # b # cs) = ((a = CHR ''<'' \<and> b = CHR ''s'') \<or> lt_then_s (b # cs))"

text \<open>Values for the examples.\<close>

definition sample_runtime :: runtime where
  "sample_runtime =
     \<lparr>STATUS_CODES = (\<lambda>n. if n = 404 then Some ''Not Found''
                           else if n = 500 then Some ''Internal Server Error'' else None),
      NODE_ENV = None,
      accepts_types = (\<lambda>r. Text)\<rparr>"

definition sample_request :: request where
  "sample_request =
     \<lparr>req_method = ''GET'', url = ''/missing'', originalUrl = None, readable = False,
      has_unpipe = True, close_listeners = []\<rparr>"

definition sample_world :: world where
  "sample_world =
     \<lparr>req = sample_request, res = \<lparr>statusCode = Some 200, header_sent = False\<rparr>,
      effects = [], end_listeners = []\<rparr>"

definition sample_error :: jserror where
  "sample_error =
     \<lparr>err_status = None, err_message = Some ''boom'', err_stack = None,
      err_name = Some ''Error'', err_toString = ''Error: boom''\<rparr>"

definition sample_handler :: handler where
  "sample_handler = \<lparr>message = None, onerror = JUndefined, stacktrace = False\<rparr>"

definition sample_handler_env :: handler_env where
  "sample_handler_env = \<lparr>env = JStr ''production'', env_onerror = JUndefined\<rparr>"

section \<open>The HTML body never holds a script tag\<close>

lemma lt_then_s_append:
  "lt_then_s (xs @ ys) \<Longrightarrow>
     lt_then_s xs \<or> lt_then_s ys \<or> (xs \<noteq> [] \<and> last xs = CHR ''<'' \<and> ys \<noteq> [] \<and> hd ys = CHR ''s'')"
proof (induction xs rule: lt_then_s.induct)
  case 1
  then show ?case by simp
next
  case (2 a)
  then show ?case by (cases ys) auto
next
  case (3 a b cs)
  then show ?case by auto
qed

lemma sublist_lt_then_s: "sublist (CHR ''<'' # CHR ''s'' # rest) xs \<Longrightarrow> lt_then_s xs"
proof (induction xs rule: lt_then_s.induct)
  case 1
  then show ?case by simp
next
  case (2 a)
  then show ?case by (auto simp: sublist_Cons_right)
next
  case (3 a b cs)
  then show ?case by (auto simp: sublist_Cons_right)
qed

lemma lt_then_s_Cons: "lt_then_s cs \<Longrightarrow> lt_then_s (x # cs)"
  by (cases cs) auto

lemma no_lt_not_lt_then_s: "CHR ''<'' \<notin> set xs \<Longrightarrow> \<not> lt_then_s xs"
  by (induction xs rule: lt_then_s.induct) auto

lemma escape_char_no_lt: "CHR ''<'' \<notin> set (escape_char c)"
  by simp

lemma escapeHtml_no_lt: "CHR ''<'' \<notin> set (escapeHtml m)"
  unfolding escapeHtml_def using escape_char_no_lt by (induction "js_String m") auto

lemma replace_newlines_Cons:
  "replace_newlines (c # cs) = (if c = CHR ''\<newline>'' then ''<br>'' else [c]) @ replace_newlines cs"
  by (simp add: replace_newlines_def)

lemma replace_newlines_ok: "CHR ''<'' \<notin> set xs \<Longrightarrow> \<not> lt_then_s (replace_newlines xs)"
proof (induction xs)
  case Nil
  then show ?case by (simp add: replace_newlines_def)
next
  case (Cons c cs)
  then have ih: "\<not> lt_then_s (replace_newlines cs)" by simp
  show ?case
  proof (cases "c = CHR ''\<newline>''")
    case True
    then show ?thesis using ih
      by (cases "replace_newlines cs") (auto simp: replace_newlines_Cons)
  next
    case False
    with Cons.prems have "c \<noteq> CHR ''<''" by auto
    then show ?thesis using ih False
      by (cases "replace_newlines cs") (auto simp: replace_newlines_Cons)
  qed
qed

lemma hd_replace_spaces: "xs \<noteq> [] \<Longrightarrow> hd (replace_spaces xs) = hd xs"
  by (induction xs rule: replace_spaces.induct) auto

lemma replace_spaces_Nil: "replace_spaces xs = [] \<longleftrightarrow> xs = []"
  by (induction xs rule: replace_spaces.induct) auto

lemma replace_spaces_ok: "\<not> lt_then_s xs \<Longrightarrow> \<not> lt_then_s (replace_spaces xs)"
proof (induction xs rule: replace_spaces.induct)
  case (1 a b cs)
  show ?case
  proof (cases "a = CHR '' '' \<and> b = CHR '' ''")
    case True
    from 1(3) have "\<not> lt_then_s cs" using lt_then_s_Cons by blast
    with 1 True have "\<not> lt_then_s (replace_spaces cs)" by auto
    then show ?thesis using True
      by (cases "replace_spaces cs") auto
  next
    case False
    with 1 have ih: "\<not> lt_then_s (replace_spaces (b # cs))" by auto
    have "replace_spaces (b # cs) \<noteq> []" by (simp add: replace_spaces_Nil)
    then obtain d ds where d: "replace_spaces (b # cs) = d # ds"
      by (cases "replace_spaces (b # cs)") auto
    have "hd (replace_spaces (b # cs)) = b" by (simp add: hd_replace_spaces)
    with d have "d = b" by simp
    then show ?thesis using False ih d 1(3) by auto
  qed
qed simp_all

lemma html_no_lt_then_s: "\<not> lt_then_s (bytes (constructHtmlBody rt status m))"
proof -
  let ?t = "escapeHtml (status_text rt status)"
  let ?m = "replace_spaces (replace_newlines (escapeHtml m))"
  let ?l1 = "''<!doctype html>\<newline><html lang=en>\<newline><head>\<newline><meta charset=utf-8>\<newline><title>''"
  let ?l2 = "''</title>\<newline></head>\<newline><body>\<newline>''"
  let ?l3 = "''\<newline></body>\<newline>''"
  have t: "\<not> lt_then_s ?t"
    by (rule no_lt_not_lt_then_s) (rule escapeHtml_no_lt)
  have m: "\<not> lt_then_s ?m"
    by (rule replace_spaces_ok, rule replace_newlines_ok, rule escapeHtml_no_lt)
  have r3: "\<not> lt_then_s (?m @ ?l3)"
    using lt_then_s_append [of ?m ?l3] m by auto
  have r2: "\<not> lt_then_s (?l2 @ ?m @ ?l3)"
    using lt_then_s_append [of ?l2 "?m @ ?l3"] r3 by auto
  have r1: "\<not> lt_then_s (?t @ ?l2 @ ?m @ ?l3)"
    using lt_then_s_append [of ?t "?l2 @ ?m @ ?l3"] r2 t by auto
  have r0: "\<not> lt_then_s (?l1 @ ?t @ ?l2 @ ?m @ ?l3)"
    using lt_then_s_append [of ?l1 "?t @ ?l2 @ ?m @ ?l3"] r1 by auto
  have "bytes (constructHtmlBody rt status m) = ?l1 @ ?t @ ?l2 @ ?m @ ?l3"
    by (simp add: constructHtmlBody_def)
  with r0 show ?thesis by simp
qed

lemma escapeHtml_safe:
  "\<forall>c \<in> set t. c \<notin> {CHR ''&'', CHR 0x22, CHR 0x27, CHR ''<'', CHR ''>''} \<Longrightarrow>
     escapeHtml (Some t) = t"
  unfolding escapeHtml_def by (induction t) auto

lemma replace_newlines_id: "CHR ''\<newline>'' \<notin> set t \<Longrightarrow> replace_newlines t = t"
  by (induction t) (auto simp: replace_newlines_Cons, simp add: replace_newlines_def)

lemma replace_spaces_id: "\<not> sublist ''  '' t \<Longrightarrow> replace_spaces t = t"
proof (induction t rule: replace_spaces.induct)
  case (1 a b cs)
  have "\<not> sublist ''  '' (b # cs)"
    using 1(3) by (simp add: sublist_Cons_right)
  moreover have "\<not> (a = CHR '' '' \<and> b = CHR '' '')"
    using 1(3) by (auto simp: sublist_Cons_right)
  ultimately show ?case using 1 by auto
qed simp_all

lemma html_message_plain:
  "(\<forall>c \<in> set t. c \<notin> {CHR ''&'', CHR 0x22, CHR 0x27, CHR ''<'', CHR ''>'', CHR ''\<newline>''}) \<Longrightarrow>
   \<not> sublist ''  '' t \<Longrightarrow>
     replace_spaces (replace_newlines (escapeHtml (Some t))) = t"
proof -
  assume a: "\<forall>c \<in> set t. c \<notin> {CHR ''&'', CHR 0x22, CHR 0x27, CHR ''<'', CHR ''>'', CHR ''\<newline>''}"
    and b: "\<not> sublist ''  '' t"
  have "escapeHtml (Some t) = t"
    using a by (intro escapeHtml_safe) auto
  moreover have "replace_newlines t = t"
    using a by (intro replace_newlines_id) auto
  ultimately show ?thesis
    using b by (simp add: replace_spaces_id)
qed

text \<open>
  C8. On a text with none of the five characters \<open>& " ' < >\<close> the escaping is the
  identity, so escaping it twice is escaping it once; when the text has no newline and no
  two spaces in a row either, the whole rewriting of the message by the HTML builder is
  the identity. For a message that contains \<open><script>\<close> the bytes of the HTML body do
  not contain \<open><script>\<close> anywhere.
\<close>

theorem html_escaping_safe:
  "((\<forall>c \<in> set t. c \<notin> {CHR ''&'', CHR 0x22, CHR 0x27, CHR ''<'', CHR ''>''}) \<longrightarrow>
      escapeHtml (Some t) = t \<and> escapeHtml (Some (escapeHtml (Some t))) = escapeHtml (Some t))
   \<and> ((\<forall>c \<in> set t. c \<notin> {CHR ''&'', CHR 0x22, CHR 0x27, CHR ''<'', CHR ''>'', CHR ''\<newline>''})
        \<and> \<not> sublist ''  '' t \<longrightarrow>
      replace_spaces (replace_newlines (escapeHtml (Some t))) = t)
   \<and> (sublist ''<script>'' m \<longrightarrow>
        \<not> sublist ''<script>'' (bytes (constructHtmlBody rt status (Some m))))"
proof (intro conjI impI)
  assume "\<forall>c \<in> set t. c \<notin> {CHR ''&'', CHR 0x22, CHR 0x27, CHR ''<'', CHR ''>''}"
  then show "escapeHtml (Some t) = t"
    by (rule escapeHtml_safe)
  then show "escapeHtml (Some (escapeHtml (Some t))) = escapeHtml (Some t)"
    by simp
next
  assume "(\<forall>c \<in> set t. c \<notin> {CHR ''&'', CHR 0x22, CHR 0x27, CHR ''<'', CHR ''>'', CHR ''\<newline>''})
        \<and> \<not> sublist ''  '' t"
  then show "replace_spaces (replace_newlines (escapeHtml (Some t))) = t"
    using html_message_plain [of t] by blast
next
  show "\<not> sublist ''<script>'' (bytes (constructHtmlBody rt status (Some m)))"
    using html_no_lt_then_s [of rt status "Some m"] sublist_lt_then_s by auto
qed

theorem html_escaping_safe_witness:
  "list_all (\<lambda>c. c \<notin> {CHR ''&'', CHR 0x22, CHR 0x27, CHR ''<'', CHR ''>'', CHR ''\<newline>''}) ''Not Found''
   \<and> \<not> sublist ''  '' ''Not Found''
   \<and> escapeHtml (Some ''Not Found'') = ''Not Found''
   \<and> replace_spaces (replace_newlines (escapeHtml (Some ''Not Found''))) = ''Not Found''
   \<and> sublist ''<script>'' ''<script>x''
   \<and> \<not> sublist ''<script>'' (bytes (constructHtmlBody sample_runtime (Some 500) (Some ''<script>x'')))"
proof -
  have s: "sublist ''<script>'' ''<script>x''"
    using sublist_append_rightI [of "''<script>''" "''x''"] by simp
  have safe: "\<forall>c \<in> set ''Not Found''.
      c \<notin> {CHR ''&'', CHR 0x22, CHR 0x27, CHR ''<'', CHR ''>'', CHR ''\<newline>''}"
    by simp
  then have safe': "\<forall>c \<in> set ''Not Found''.
      c \<notin> {CHR ''&'', CHR 0x22, CHR 0x27, CHR ''<'', CHR ''>''}"
    by simp
  have sp: "\<not> sublist ''  '' ''Not Found''"
    by (simp add: sublist_Cons_right)
  have l: "list_all (\<lambda>c. c \<notin> {CHR ''&'', CHR 0x22, CHR 0x27, CHR ''<'', CHR ''>'', CHR ''\<newline>''}) ''Not Found''"
    by simp
  show ?thesis
    using s safe safe' sp l
      html_escaping_safe [of "''Not Found''" "''<script>x''" sample_runtime "Some 500"]
    by blast
qed

section \<open>What the transmitter records\<close>

lemma perform_simps:
  "req (perform e w) = req w" "res (perform e w) = res w"
  "effects (perform e w) = effects w @ [e]" "end_listeners (perform e w) = end_listeners w"
  by (simp_all add: perform_def)

lemma set_statusCode_simps:
  "req (set_statusCode s w) = req w" "res (set_statusCode s w) = (res w)\<lparr>statusCode := s\<rparr>"
  "effects (set_statusCode s w) = effects w @ [AssignStatus s]"
  "end_listeners (set_statusCode s w) = end_listeners w"
  by (simp_all add: set_statusCode_def perform_def)

lemma write_res_simps:
  "req (write_res s b w) = req w" "res (write_res s b w) = (res w)\<lparr>statusCode := s\<rparr>"
  "effects (write_res s b w) =
     effects w @ written s b (if req_method (req w) = ''HEAD'' then None else Some b)"
  "end_listeners (write_res s b w) = end_listeners w"
  by (simp_all add: write_res_def written_def Let_def perform_simps set_statusCode_simps)

lemma fold_listeners:
  "fold (\<lambda>listener w'. if listener \<noteq> ''cleanup'' \<and> listener \<noteq> ''onclose'' then w'
                        else perform (CallListener listener) w') ls w
   = w\<lparr>effects := effects w @ map CallListener (filter (\<lambda>n. n = ''cleanup'' \<or> n = ''onclose'') ls)\<rparr>"
  by (induction ls arbitrary: w) (auto simp: perform_def)

lemma unpipe_eq: "unpipe w = w\<lparr>effects := effects w @ unpipe_calls (req w)\<rparr>"
  by (simp add: unpipe_def unpipe_calls_def fold_listeners perform_def)

lemma unpipe_calls_no_write:
  "filter is_write (unpipe_calls r) = []"
  "filter is_header_or_body_write (unpipe_calls r) = []"
  by (auto simp: unpipe_calls_def filter_empty_conv)

lemma send_now: "\<not> readable (req w) \<Longrightarrow> send s b w = write_res s b w"
  by (simp add: send_def)

lemma send_deferred:
  "readable (req w) \<Longrightarrow> send s b w =
     w\<lparr>effects := effects w @ unpipe_calls (req w) @ [OnceEnd s b, Resume],
       end_listeners := end_listeners w @ [(s, b)]\<rparr>"
  by (simp add: send_def unpipe_eq once_end_def perform_def Let_def)

lemma emit_end_snoc:
  "end_listeners w = ls @ [(s, b)] \<Longrightarrow>
     emit_end w = write_res s b (emit_end (w\<lparr>end_listeners := ls\<rparr>))"
  by (simp add: emit_end_def)





lemma emit_end_send:
  "readable (req w) \<Longrightarrow> end_listeners w = [] \<Longrightarrow>
     emit_end (send s b w) =
       write_res s b (w\<lparr>effects := effects w @ unpipe_calls (req w) @ [OnceEnd s b, Resume],
                        end_listeners := []\<rparr>)"
  by (simp add: send_deferred emit_end_def)

lemma schedule_onerror_simps:
  "req (schedule_onerror cb err w) = req w" "res (schedule_onerror cb err w) = res w"
  "end_listeners (schedule_onerror cb err w) = end_listeners w"
  "effects (schedule_onerror cb err w) =
     effects w @ (case err of Some e \<Rightarrow> if truthy cb then [Defer cb e] else [] | None \<Rightarrow> [])"
  by (auto simp: schedule_onerror_def perform_simps split: option.splits)


section \<open>Frame lemmas of the two handlers\<close>

lemma resolve_env_frame:
  "req (fst (resolve_env rt h err w)) = req w"
  "header_sent (res (fst (resolve_env rt h err w))) = header_sent (res w)"
  "end_listeners (fst (resolve_env rt h err w)) = end_listeners w"
  "filter is_header_or_body_write (effects (fst (resolve_env rt h err w)))
     = filter is_header_or_body_write (effects w)"
  "count_list (effects (fst (resolve_env rt h err w))) SocketDestroy
     = count_list (effects w) SocketDestroy"
  by (auto simp: resolve_env_def Let_def set_statusCode_simps split: option.splits)

lemma responder_sent:
  "header_sent (res w) \<Longrightarrow>
     responder rt h err w = perform SocketDestroy (schedule_onerror (onerror h) err w)"
  by (simp add: responder_def schedule_onerror_simps split: prod.splits)

lemma responder_unsent:
  "\<not> header_sent (res w) \<Longrightarrow>
     responder rt h err w =
       send (fst (resolve rt h err w))
         (constructBody rt (accepts_types rt (req w)) (fst (resolve rt h err w)) (snd (resolve rt h err w)))
         (schedule_onerror (onerror h) err w)"
  by (simp add: responder_def schedule_onerror_simps Let_def split: prod.splits)

lemma responder_env_sent:
  "header_sent (res w) \<Longrightarrow>
     responder_env rt h err w =
       perform SocketDestroy (schedule_onerror (env_onerror h) err (fst (resolve_env rt h err w)))"
proof -
  assume sent: "header_sent (res w)"
  obtain w0 msg where eq: "resolve_env rt h err w = (w0, msg)"
    by (cases "resolve_env rt h err w")
  have "header_sent (res w0)"
    using resolve_env_frame(2) [of rt h err w] eq sent by simp
  then show ?thesis
    by (simp add: responder_env_def eq schedule_onerror_simps)
qed

lemma responder_env_unsent:
  "\<not> header_sent (res w) \<Longrightarrow>
     responder_env rt h err w =
       send (statusCode (res (fst (resolve_env rt h err w))))
         (constructBody rt (accepts_types rt (req w)) (statusCode (res (fst (resolve_env rt h err w))))
            (snd (resolve_env rt h err w)))
         (schedule_onerror (env_onerror h) err (fst (resolve_env rt h err w)))"
proof -
  assume unsent: "\<not> header_sent (res w)"
  obtain w0 msg where eq: "resolve_env rt h err w = (w0, msg)"
    by (cases "resolve_env rt h err w")
  have "\<not> header_sent (res w0)" and "req w0 = req w"
    using resolve_env_frame(1,2) [of rt h err w] eq unsent by simp_all
  then show ?thesis
    by (simp add: responder_env_def eq schedule_onerror_simps Let_def)
qed

section \<open>HEAD requests\<close>

text \<open>
  C6. A request whose method is \<open>HEAD\<close>: the transmitter assigns the status, sets
  \<open>X-Content-Type-Options: nosniff\<close>, the \<open>Content-Type\<close> of the body and a
  \<open>Content-Length\<close> that is the length of the body's bytes, and ends the response
  with no payload; at once when the request is not readable, at the request's end when it
  is. The body the handler of \<open>part_000\<close> passes is the one built for the negotiated
  type.
\<close>

theorem head_no_payload:
  "req_method (req w) = ''HEAD'' \<longrightarrow>
     (\<not> readable (req w) \<longrightarrow>
        res (send status body w) = (res w)\<lparr>statusCode := status\<rparr> \<and>
        effects (send status body w) = effects w @
          [AssignStatus status,
           SetHeader ''X-Content-Type-Options'' (HStr ''nosniff''),
           SetHeader ''Content-Type'' (HStr (body_type body)),
           SetHeader ''Content-Length'' (HNum (length (bytes body))),
           End None])
   \<and> (readable (req w) \<and> end_listeners w = [] \<longrightarrow>
        filter is_write (effects (emit_end (send status body w))) = filter is_write (effects w) @
          [AssignStatus status,
           SetHeader ''X-Content-Type-Options'' (HStr ''nosniff''),
           SetHeader ''Content-Type'' (HStr (body_type body)),
           SetHeader ''Content-Length'' (HNum (length (bytes body))),
           End None])
   \<and> (\<not> header_sent (res w) \<and> \<not> readable (req w) \<longrightarrow>
        effects (responder rt h err w) = effects (schedule_onerror (onerror h) err w) @
          written (fst (resolve rt h err w))
            (constructBody rt (accepts_types rt (req w))
               (fst (resolve rt h err w)) (snd (resolve rt h err w)))
            None)"
  by (auto simp: send_now emit_end_send write_res_simps written_def unpipe_calls_no_write
        responder_def schedule_onerror_simps split: prod.splits)

theorem head_no_payload_witness:
  "req_method (req (sample_world\<lparr>req := sample_request\<lparr>req_method := ''HEAD''\<rparr>\<rparr>)) = ''HEAD''
   \<and> \<not> readable (req (sample_world\<lparr>req := sample_request\<lparr>req_method := ''HEAD''\<rparr>\<rparr>))
   \<and> effects (send (Some 404) (constructTextBody (Some 404) (Some ''Cannot HEAD /missing''))
        (sample_world\<lparr>req := sample_request\<lparr>req_method := ''HEAD''\<rparr>\<rparr>)) =
        [AssignStatus (Some 404),
         SetHeader ''X-Content-Type-Options'' (HStr ''nosniff''),
         SetHeader ''Content-Type'' (HStr ''text/plain; charset=utf-8''),
         SetHeader ''Content-Length'' (HNum 21),
         End None]
   \<and> readable (req (sample_world\<lparr>req := sample_request\<lparr>req_method := ''HEAD'', readable := True\<rparr>\<rparr>))
   \<and> filter is_write (effects (emit_end
        (send (Some 404) (constructTextBody (Some 404) (Some ''Cannot HEAD /missing''))
           (sample_world\<lparr>req := sample_request\<lparr>req_method := ''HEAD'', readable := True\<rparr>\<rparr>)))) =
        [AssignStatus (Some 404),
         SetHeader ''X-Content-Type-Options'' (HStr ''nosniff''),
         SetHeader ''Content-Type'' (HStr ''text/plain; charset=utf-8''),
         SetHeader ''Content-Length'' (HNum 21),
         End None]"
  using
    head_no_payload [of "sample_world\<lparr>req := sample_request\<lparr>req_method := ''HEAD''\<rparr>\<rparr>"
      "Some 404" "constructTextBody (Some 404) (Some ''Cannot HEAD /missing'')"
      sample_runtime sample_handler None]
    head_no_payload [of
      "sample_world\<lparr>req := sample_request\<lparr>req_method := ''HEAD'', readable := True\<rparr>\<rparr>"
      "Some 404" "constructTextBody (Some 404) (Some ''Cannot HEAD /missing'')"
      sample_runtime sample_handler None]
  by (simp add: sample_world_def sample_request_def constructTextBody_def)

section \<open>Headers already sent\<close>

text \<open>
  C3. When the headers of the response are already sent, the handler sets no header and
  ends no response, registers no deferred write, and destroys the socket of the request.
  The handler of \<open>part_000\<close> records nothing but the scheduled \<open>onerror\<close> call and
  the destruction; that of \<open>src/index.js\<close> also assigns the status code.
\<close>

theorem headers_sent_destroys:
  "header_sent (res w) \<longrightarrow>
     (effects (responder rt h err w) =
        effects w
        @ (case err of Some e \<Rightarrow> if truthy (onerror h) then [Defer (onerror h) e] else []
           | None \<Rightarrow> [])
        @ [SocketDestroy]
      \<and> end_listeners (responder rt h err w) = end_listeners w)
   \<and> (filter is_header_or_body_write (effects (responder_env rt h' err w))
          = filter is_header_or_body_write (effects w)
      \<and> end_listeners (responder_env rt h' err w) = end_listeners w
      \<and> last (effects (responder_env rt h' err w)) = SocketDestroy
      \<and> count_list (effects (responder_env rt h' err w)) SocketDestroy
          = Suc (count_list (effects w) SocketDestroy))"
  by (auto simp: responder_sent responder_env_sent perform_simps schedule_onerror_simps
        resolve_env_frame split: option.splits)

theorem headers_sent_destroys_witness:
  "header_sent (res (sample_world\<lparr>res := \<lparr>statusCode = Some 200, header_sent = True\<rparr>\<rparr>))
   \<and> effects (responder sample_runtime sample_handler None
        (sample_world\<lparr>res := \<lparr>statusCode = Some 200, header_sent = True\<rparr>\<rparr>)) = [SocketDestroy]
   \<and> last (effects (responder_env sample_runtime sample_handler_env None
        (sample_world\<lparr>res := \<lparr>statusCode = Some 200, header_sent = True\<rparr>\<rparr>))) = SocketDestroy
   \<and> filter is_header_or_body_write (effects (responder_env sample_runtime sample_handler_env None
        (sample_world\<lparr>res := \<lparr>statusCode = Some 200, header_sent = True\<rparr>\<rparr>))) = []"
  using headers_sent_destroys [of
      "sample_world\<lparr>res := \<lparr>statusCode = Some 200, header_sent = True\<rparr>\<rparr>"
      sample_runtime sample_handler None sample_handler_env]
  by (simp add: sample_world_def)

text \<open>
  C10, as amended. When the headers are already sent, the handler of \<open>part_000\<close>
  leaves the response as it was, its \<open>statusCode\<close> included. The handler of
  \<open>src/index.js\<close> has no local status: it has assigned the resolved status to
  \<open>res.statusCode\<close> before it looks at the headers, 404 without an error and the status
  of the error when that is in the range.
\<close>

theorem headers_sent_status_kept:
  "header_sent (res w) \<longrightarrow>
     res (responder rt h err w) = res w
   \<and> statusCode (res (responder_env rt h' None w)) = Some 404
   \<and> (status_in_range (err_status e) \<longrightarrow>
        statusCode (res (responder_env rt h' (Some e) w)) = err_status e)"
  by (cases "err_status e")
    (auto simp: responder_sent responder_env_sent perform_simps schedule_onerror_simps
        resolve_env_def set_statusCode_simps Let_def)

theorem headers_sent_status_kept_witness:
  "header_sent (res (sample_world\<lparr>res := \<lparr>statusCode = Some 200, header_sent = True\<rparr>\<rparr>))
   \<and> res (responder sample_runtime sample_handler (Some sample_error)
        (sample_world\<lparr>res := \<lparr>statusCode = Some 200, header_sent = True\<rparr>\<rparr>))
       = \<lparr>statusCode = Some 200, header_sent = True\<rparr>
   \<and> status_in_range (err_status (sample_error\<lparr>err_status := Some 503\<rparr>))
   \<and> statusCode (res (responder_env sample_runtime sample_handler_env
        (Some (sample_error\<lparr>err_status := Some 503\<rparr>))
        (sample_world\<lparr>res := \<lparr>statusCode = Some 200, header_sent = True\<rparr>\<rparr>))) = Some 503"
  using headers_sent_status_kept [of
      "sample_world\<lparr>res := \<lparr>statusCode = Some 200, header_sent = True\<rparr>\<rparr>"
      sample_runtime sample_handler "Some sample_error" sample_handler_env
      "sample_error\<lparr>err_status := Some 503\<rparr>"]
  by (simp add: sample_world_def sample_error_def)

text \<open>
  The claim C10 as it is written fails on \<open>src/index.js\<close>: with the headers sent and a
  status code of 200, a call without an error leaves the status code 404.
\<close>

theorem env_status_assigned_when_sent:
  "header_sent (res (sample_world\<lparr>res := \<lparr>statusCode = Some 200, header_sent = True\<rparr>\<rparr>))
   \<and> statusCode (res (responder_env sample_runtime sample_handler_env None
        (sample_world\<lparr>res := \<lparr>statusCode = Some 200, header_sent = True\<rparr>\<rparr>)))
      \<noteq> statusCode (res (sample_world\<lparr>res := \<lparr>statusCode = Some 200, header_sent = True\<rparr>\<rparr>))"
  by (simp add: responder_env_sent perform_simps schedule_onerror_simps sample_world_def
        resolve_env_def set_statusCode_simps)

section \<open>Status resolution\<close>

lemma resolve_status_in_range:
  "status_in_range (err_status e) \<Longrightarrow> fst (resolve rt h (Some e) w) = err_status e"
  by (simp add: resolve_def Let_def)

lemma resolve_env_status_in_range:
  "status_in_range (err_status e) \<Longrightarrow>
     statusCode (res (fst (resolve_env rt h (Some e) w))) = err_status e"
  by (cases "err_status e") (auto simp: resolve_env_def Let_def set_statusCode_simps)

lemma send_status_now: "\<not> readable (req w) \<Longrightarrow> statusCode (res (send s b w)) = s"
  by (simp add: send_now write_res_simps)

lemma send_status_at_end: "readable (req w) \<Longrightarrow> statusCode (res (emit_end (send s b w))) = s"
proof -
  assume "readable (req w)"
  then have "end_listeners (send s b w) = end_listeners w @ [(s, b)]"
    by (simp add: send_deferred)
  then show ?thesis
    by (simp add: emit_end_snoc write_res_simps)
qed

text \<open>
  The handler of \<open>part_000\<close> falls back to 500, or to a status of the response that is
  400 or more, when the error has no status in the range.
\<close>

lemma resolve_default_status:
  "\<not> status_in_range (err_status e) \<Longrightarrow>
     fst (resolve rt h (Some e) w) =
       (case statusCode (res w) of
          None \<Rightarrow> Some 500
        | Some s \<Rightarrow> if 400 \<le> s then Some s else Some 500)"
  by (auto simp: resolve_def Let_def split: option.splits)

lemma resolve_env_default_status:
  "\<not> truthy_num (err_status e) \<Longrightarrow>
     statusCode (res (fst (resolve_env rt h (Some e) w))) =
       (case statusCode (res w) of
          None \<Rightarrow> Some 500
        | Some s \<Rightarrow> if 400 \<le> s then Some s else Some 500)"
  by (auto simp: resolve_env_def Let_def set_statusCode_simps split: option.splits)

text \<open>
  C1. An error whose status is an integer from 400 to 599: both handlers resolve the
  status to it, whatever the response's status was, and it is the status of the response
  once the response is written (at once, or at the end of the request when the request
  was still readable).
\<close>

theorem error_status_wins:
  "err_status e = Some n \<and> 400 \<le> n \<and> n \<le> 599 \<longrightarrow>
     fst (resolve rt h (Some e) w) = Some n
   \<and> statusCode (res (fst (resolve_env rt h' (Some e) w))) = Some n
   \<and> (\<not> header_sent (res w) \<and> \<not> readable (req w) \<longrightarrow>
        statusCode (res (responder rt h (Some e) w)) = Some n
      \<and> statusCode (res (responder_env rt h' (Some e) w)) = Some n)
   \<and> (\<not> header_sent (res w) \<and> readable (req w) \<longrightarrow>
        statusCode (res (emit_end (responder rt h (Some e) w))) = Some n
      \<and> statusCode (res (emit_end (responder_env rt h' (Some e) w))) = Some n)"
proof (intro impI)
  assume a: "err_status e = Some n \<and> 400 \<le> n \<and> n \<le> 599"
  then have r: "status_in_range (err_status e)" by simp
  have s: "fst (resolve rt h (Some e) w) = Some n"
    using resolve_status_in_range [OF r] a by simp
  have s': "statusCode (res (fst (resolve_env rt h' (Some e) w))) = Some n"
    using resolve_env_status_in_range [OF r] a by simp
  show "fst (resolve rt h (Some e) w) = Some n
   \<and> statusCode (res (fst (resolve_env rt h' (Some e) w))) = Some n
   \<and> (\<not> header_sent (res w) \<and> \<not> readable (req w) \<longrightarrow>
        statusCode (res (responder rt h (Some e) w)) = Some n
      \<and> statusCode (res (responder_env rt h' (Some e) w)) = Some n)
   \<and> (\<not> header_sent (res w) \<and> readable (req w) \<longrightarrow>
        statusCode (res (emit_end (responder rt h (Some e) w))) = Some n
      \<and> statusCode (res (emit_end (responder_env rt h' (Some e) w))) = Some n)"
    using s s'
    by (simp add: responder_unsent responder_env_unsent send_status_now send_status_at_end
          schedule_onerror_simps resolve_env_frame)
qed

theorem error_status_wins_witness:
  "err_status (sample_error\<lparr>err_status := Some 404\<rparr>) = Some 404
   \<and> (400::int) \<le> 404 \<and> (404::int) \<le> 599
   \<and> \<not> header_sent (res sample_world) \<and> \<not> readable (req sample_world)
   \<and> statusCode (res (responder sample_runtime sample_handler
         (Some (sample_error\<lparr>err_status := Some 404\<rparr>)) sample_world)) = Some 404
   \<and> statusCode (res (responder_env sample_runtime sample_handler_env
         (Some (sample_error\<lparr>err_status := Some 404\<rparr>)) sample_world)) = Some 404
   \<and> readable (req (sample_world\<lparr>req := sample_request\<lparr>readable := True\<rparr>\<rparr>))
   \<and> statusCode (res (emit_end (responder sample_runtime sample_handler
         (Some (sample_error\<lparr>err_status := Some 404\<rparr>))
         (sample_world\<lparr>req := sample_request\<lparr>readable := True\<rparr>\<rparr>)))) = Some 404"
  using
    error_status_wins [of "sample_error\<lparr>err_status := Some 404\<rparr>" 404 sample_runtime
      sample_handler sample_world sample_handler_env]
    error_status_wins [of "sample_error\<lparr>err_status := Some 404\<rparr>" 404 sample_runtime
      sample_handler "sample_world\<lparr>req := sample_request\<lparr>readable := True\<rparr>\<rparr>" sample_handler_env]
  by (simp add: sample_world_def sample_request_def sample_error_def)

text \<open>
  C2. The handler of \<open>src/index.js\<close> takes any status of the error that is truthy: an
  error with status 302 gives a response with status 302, not 500.
\<close>

theorem env_status_out_of_range:
  "statusCode (res (responder_env sample_runtime sample_handler_env
      (Some (sample_error\<lparr>err_status := Some 302\<rparr>)) sample_world)) = Some 302"
  by (simp add: responder_env_unsent send_status_now schedule_onerror_simps resolve_env_frame
        sample_world_def sample_request_def)
    (simp add: resolve_env_def set_statusCode_simps sample_error_def Let_def)

section \<open>A request that is still readable\<close>

lemma fold_write_res:
  "req (fold (\<lambda>(status, body). write_res status body) ls w) = req w
   \<and> effects (fold (\<lambda>(status, body). write_res status body) ls w)
       = effects w @ end_writes (req w) ls"
proof (induction ls arbitrary: w)
  case Nil
  then show ?case by (simp add: end_writes_def)
next
  case (Cons l ls)
  obtain s b where l: "l = (s, b)" by (cases l)
  show ?case
    using Cons.IH [of "write_res s b w"]
    by (simp add: l write_res_simps end_writes_def)
qed

lemma emit_end_req: "req (emit_end w) = req w"
  using fold_write_res [of "end_listeners w" "w\<lparr>end_listeners := []\<rparr>"]
  by (simp add: emit_end_def)

lemma emit_end_effects: "effects (emit_end w) = effects w @ end_writes (req w) (end_listeners w)"
  using fold_write_res [of "end_listeners w" "w\<lparr>end_listeners := []\<rparr>"]
  by (simp add: emit_end_def)

lemma end_writes_snoc:
  "end_writes r (ls @ [(s, b)])
     = end_writes r ls @ written s b (if req_method r = ''HEAD'' then None else Some b)"
  by (simp add: end_writes_def)

lemma end_writes_Nil: "end_writes r [] = []"
  by (simp add: end_writes_def)













section \<open>Construction\<close>

lemma normalize_message_type:
  "(typeof (normalize_message m) \<noteq> TBoolean \<and> typeof (normalize_message m) \<noteq> TFunction)
     = (truthy m \<and> typeof m \<noteq> TBoolean \<and> typeof m \<noteq> TFunction)"
  by (cases m rule: normalize_message.cases) auto

text \<open>
  C9, as amended. The handler of \<open>part_000\<close> cannot be made exactly when an options bag
  is given whose \<open>message\<close>, once \<open>true\<close> is mapped to the default derivation and
  a falsy value to \<open>false\<close>, is neither a boolean nor a function: that is, when the
  option is truthy and neither a boolean nor a function. The other options have no part
  in it. The handler of \<open>src/index.js\<close> has no \<open>message\<close> option and can always be
  made.
\<close>

theorem message_option_checked:
  "(finalhandler opts = Inl TypeError) =
     (\<exists>bag. opts = Some bag
        \<and> typeof (normalize_message (opt_message bag)) \<noteq> TBoolean
        \<and> typeof (normalize_message (opt_message bag)) \<noteq> TFunction)
   \<and> (typeof (normalize_message m) \<noteq> TBoolean \<and> typeof (normalize_message m) \<noteq> TFunction)
       = (truthy m \<and> typeof m \<noteq> TBoolean \<and> typeof m \<noteq> TFunction)
   \<and> isl (finalhandler (Some (bag\<lparr>opt_onerror := a, opt_stacktrace := b, opt_env := c\<rparr>)))
       = isl (finalhandler (Some bag))
   \<and> \<not> isl (finalhandler_env rt opts)"
proof -
  have 1: "(finalhandler opts = Inl TypeError) =
     (\<exists>bag. opts = Some bag
        \<and> typeof (normalize_message (opt_message bag)) \<noteq> TBoolean
        \<and> typeof (normalize_message (opt_message bag)) \<noteq> TFunction)"
    by (cases opts) (auto simp: finalhandler_def Let_def no_options_def)
  have 3: "isl (finalhandler (Some (bag\<lparr>opt_onerror := a, opt_stacktrace := b, opt_env := c\<rparr>)))
       = isl (finalhandler (Some bag))"
    by (simp add: finalhandler_def Let_def)
  have 4: "\<not> isl (finalhandler_env rt opts)"
    by (simp add: finalhandler_env_def Let_def)
  show ?thesis
    using 1 3 4 normalize_message_type [of m] by blast
qed

theorem message_option_checked_witness:
  "finalhandler (Some (no_options\<lparr>opt_message := JStr ''yes''\<rparr>)) = Inl TypeError
   \<and> finalhandler (Some (no_options\<lparr>opt_message := JNum 0\<rparr>))
       = Inr \<lparr>message = None, onerror = JUndefined, stacktrace = False\<rparr>
   \<and> finalhandler None = Inr \<lparr>message = None, onerror = JUndefined, stacktrace = False\<rparr>
   \<and> isl (finalhandler (Some (no_options\<lparr>opt_message := JObj, opt_onerror := JNum 3,
                                            opt_stacktrace := JStr ''no'', opt_env := JNull\<rparr>)))"
proof -
  have "finalhandler (Some (no_options\<lparr>opt_message := JStr ''yes''\<rparr>)) = Inl TypeError"
    using message_option_checked [of "Some (no_options\<lparr>opt_message := JStr ''yes''\<rparr>)"]
    by (simp add: no_options_def)
  moreover have "isl (finalhandler (Some (no_options\<lparr>opt_message := JObj, opt_onerror := JNum 3,
                                            opt_stacktrace := JStr ''no'', opt_env := JNull\<rparr>)))"
    by (simp add: finalhandler_def no_options_def Let_def)
  ultimately show ?thesis
    by (simp add: finalhandler_def no_options_def Let_def)
qed

text \<open>
  The claim C9 as it is written fails on \<open>src/index.js\<close>: a string as the \<open>message\<close>
  option is neither a boolean nor a function, and the handler is made.
\<close>

theorem env_message_not_checked:
  "typeof (normalize_message (JStr ''yes'')) = TString
   \<and> finalhandler_env sample_runtime (Some (no_options\<lparr>opt_message := JStr ''yes''\<rparr>))
       = Inr \<lparr>env = JStr ''development'', env_onerror = JUndefined\<rparr>"
  by (simp add: finalhandler_env_def no_options_def sample_runtime_def Let_def)

section \<open>The body for the negotiated type\<close>

lemma constructBody_cases:
  "constructBody rt type status msg =
     (if type = Html then constructHtmlBody rt status msg else constructTextBody status msg)"
  by (cases type) (simp_all add: constructBody_def)

text \<open>
  C5. The HTML body has the type \<open>text/html; charset=utf-8\<close> and is the fixed document
  whose title is the escaped text of \<open>http.STATUS_CODES\<close> for the status and whose body
  is the escaped message; the plain-text body has the type
  \<open>text/plain; charset=utf-8\<close> and is the message and one newline. When the headers
  are not sent, both handlers transmit the HTML body if the negotiation answers
  \<open>html\<close>, and the plain-text body for any other answer, with the status and the
  message they resolved.
\<close>

theorem body_by_negotiation:
  "constructHtmlBody rt status msg =
     \<lparr>bytes = ''<!doctype html>\<newline><html lang=en>\<newline><head>\<newline><meta charset=utf-8>\<newline><title>''
              @ escapeHtml (status_text rt status)
              @ ''</title>\<newline></head>\<newline><body>\<newline>''
              @ replace_spaces (replace_newlines (escapeHtml msg))
              @ ''\<newline></body>\<newline>'',
      body_type = ''text/html; charset=utf-8''\<rparr>
   \<and> constructTextBody status msg =
     \<lparr>bytes = js_String msg @ ''\<newline>'', body_type = ''text/plain; charset=utf-8''\<rparr>
   \<and> (\<not> header_sent (res w) \<longrightarrow>
        responder rt h err w =
          send (fst (resolve rt h err w))
            (if accepts_types rt (req w) = Html
             then constructHtmlBody rt (fst (resolve rt h err w)) (snd (resolve rt h err w))
             else constructTextBody (fst (resolve rt h err w)) (snd (resolve rt h err w)))
            (schedule_onerror (onerror h) err w)
      \<and> responder_env rt h' err w =
          send (statusCode (res (fst (resolve_env rt h' err w))))
            (if accepts_types rt (req w) = Html
             then constructHtmlBody rt (statusCode (res (fst (resolve_env rt h' err w))))
                    (snd (resolve_env rt h' err w))
             else constructTextBody (statusCode (res (fst (resolve_env rt h' err w))))
                    (snd (resolve_env rt h' err w)))
            (schedule_onerror (env_onerror h') err (fst (resolve_env rt h' err w))))
   \<and> (\<not> header_sent (res w) \<and> \<not> readable (req w) \<and> req_method (req w) \<noteq> ''HEAD'' \<longrightarrow>
        last (effects (responder rt h err w)) =
          End (Some (if accepts_types rt (req w) = Html
                     then constructHtmlBody rt (fst (resolve rt h err w)) (snd (resolve rt h err w))
                     else constructTextBody (fst (resolve rt h err w)) (snd (resolve rt h err w))))
      \<and> SetHeader ''Content-Type''
           (HStr (if accepts_types rt (req w) = Html then ''text/html; charset=utf-8''
                  else ''text/plain; charset=utf-8''))
         \<in> set (effects (responder rt h err w)))"
proof -
  have h: "constructHtmlBody rt status msg =
     \<lparr>bytes = ''<!doctype html>\<newline><html lang=en>\<newline><head>\<newline><meta charset=utf-8>\<newline><title>''
              @ escapeHtml (status_text rt status)
              @ ''</title>\<newline></head>\<newline><body>\<newline>''
              @ replace_spaces (replace_newlines (escapeHtml msg))
              @ ''\<newline></body>\<newline>'',
      body_type = ''text/html; charset=utf-8''\<rparr>" for status msg
    by (simp add: constructHtmlBody_def)
  have t: "constructTextBody status msg =
     \<lparr>bytes = js_String msg @ ''\<newline>'', body_type = ''text/plain; charset=utf-8''\<rparr>"
    for status msg
    by (simp add: constructTextBody_def)
  have d: "\<not> header_sent (res w) \<longrightarrow>
        responder rt h err w =
          send (fst (resolve rt h err w))
            (if accepts_types rt (req w) = Html
             then constructHtmlBody rt (fst (resolve rt h err w)) (snd (resolve rt h err w))
             else constructTextBody (fst (resolve rt h err w)) (snd (resolve rt h err w)))
            (schedule_onerror (onerror h) err w)
      \<and> responder_env rt h' err w =
          send (statusCode (res (fst (resolve_env rt h' err w))))
            (if accepts_types rt (req w) = Html
             then constructHtmlBody rt (statusCode (res (fst (resolve_env rt h' err w))))
                    (snd (resolve_env rt h' err w))
             else constructTextBody (statusCode (res (fst (resolve_env rt h' err w))))
                    (snd (resolve_env rt h' err w)))
            (schedule_onerror (env_onerror h') err (fst (resolve_env rt h' err w)))"
    by (simp add: responder_unsent responder_env_unsent constructBody_cases)
  have e: "\<not> header_sent (res w) \<and> \<not> readable (req w) \<and> req_method (req w) \<noteq> ''HEAD'' \<longrightarrow>
        last (effects (responder rt h err w)) =
          End (Some (if accepts_types rt (req w) = Html
                     then constructHtmlBody rt (fst (resolve rt h err w)) (snd (resolve rt h err w))
                     else constructTextBody (fst (resolve rt h err w)) (snd (resolve rt h err w))))
      \<and> SetHeader ''Content-Type''
           (HStr (if accepts_types rt (req w) = Html then ''text/html; charset=utf-8''
                  else ''text/plain; charset=utf-8''))
         \<in> set (effects (responder rt h err w))"
    by (simp add: responder_unsent constructBody_cases send_now write_res_simps written_def
          schedule_onerror_simps constructHtmlBody_def constructTextBody_def)
  show ?thesis
    using h [of status msg] t [of status msg] d e by blast
qed

theorem body_by_negotiation_witness:
  "\<not> header_sent (res sample_world) \<and> \<not> readable (req sample_world)
   \<and> req_method (req sample_world) \<noteq> ''HEAD''
   \<and> last (effects (responder sample_runtime sample_handler None sample_world)) =
        End (Some \<lparr>bytes = ''Cannot GET /missing\<newline>'',
                    body_type = ''text/plain; charset=utf-8''\<rparr>)
   \<and> last (effects (responder (sample_runtime\<lparr>accepts_types := (\<lambda>r. Html)\<rparr>) sample_handler
        (Some (sample_error\<lparr>err_status := Some 404\<rparr>)) sample_world)) =
        End (Some \<lparr>bytes = ''<!doctype html>\<newline><html lang=en>\<newline><head>\<newline><meta charset=utf-8>\<newline><title>Not Found</title>\<newline></head>\<newline><body>\<newline>Not Found\<newline></body>\<newline>'',
                    body_type = ''text/html; charset=utf-8''\<rparr>)"
  using
    body_by_negotiation [of sample_runtime "Some 404" None sample_world sample_handler None
      sample_handler_env]
    body_by_negotiation [of "sample_runtime\<lparr>accepts_types := (\<lambda>r. Html)\<rparr>" "Some 404" None
      sample_world sample_handler "Some (sample_error\<lparr>err_status := Some 404\<rparr>)"
      sample_handler_env]
  by (simp add: sample_world_def sample_request_def sample_runtime_def sample_handler_def
        sample_error_def resolve_def getErrorMessage_def or_str_def constructHtmlBody_def
        constructTextBody_def escapeHtml_def replace_newlines_def Let_def send_now
        write_res_simps written_def schedule_onerror_simps)

section \<open>No error: 404\<close>

lemma send_last_now:
  "\<not> readable (req w) \<Longrightarrow>
     last (effects (send s b w)) = End (if req_method (req w) = ''HEAD'' then None else Some b)"
  by (simp add: send_now write_res_simps written_def)

lemma send_last_at_end:
  "readable (req w) \<Longrightarrow>
     last (effects (emit_end (send s b w)))
       = End (if req_method (req w) = ''HEAD'' then None else Some b)"
  by (simp add: emit_end_effects send_deferred end_writes_snoc written_def)

lemma sublist_of_sublist: "sublist xs ys \<Longrightarrow> sublist ys zs \<Longrightarrow> sublist xs zs"
  by (rule sublist_order.order.trans)

text \<open>
  C4. Without an error both handlers resolve the status to 404 and the message to
  \<open>Cannot\<close>, the method and the path (\<open>originalUrl\<close> when it is a non-empty
  string, else \<open>url\<close>), separated by single spaces. When the headers are not sent, the
  body both handlers transmit is this: for a negotiated type other than \<open>html\<close>, the
  message and a newline, which contains the method and the path as they are; for
  \<open>html\<close>, a document that contains the message escaped, which is the message itself,
  method and path included, when it has none of \<open>& " ' < >\<close>, no newline and no two
  spaces in a row. The status code of the response is 404 once it is written, at once
  or at the end of a readable request, and unless the method is \<open>HEAD\<close> the response
  ends with that body.
\<close>

theorem no_error_is_404:
  "resolve rt h None w =
     (Some 404,
      Some (''Cannot '' @ req_method (req w) @ '' ''
            @ (case originalUrl (req w) of
              None \<Rightarrow> url (req w)
            | Some u \<Rightarrow> if u = [] then url (req w) else u)))
   \<and> statusCode (res (fst (resolve_env rt h' None w))) = Some 404
   \<and> snd (resolve_env rt h' None w) = snd (resolve rt h None w)
   \<and> (\<not> header_sent (res w) \<longrightarrow>
       (\<exists>b. responder rt h None w = send (Some 404) b w
      \<and> responder_env rt h' None w = send (Some 404) b (set_statusCode (Some 404) w)
      \<and> (accepts_types rt (req w) \<noteq> Html \<longrightarrow>
           bytes b = js_String (snd (resolve rt h None w)) @ ''\<newline>''
         \<and> sublist (req_method (req w)) (bytes b)
         \<and> sublist (case originalUrl (req w) of
              None \<Rightarrow> url (req w)
            | Some u \<Rightarrow> if u = [] then url (req w) else u)
              (bytes b))
      \<and> (accepts_types rt (req w) = Html \<longrightarrow>
           sublist (replace_spaces (replace_newlines (escapeHtml (snd (resolve rt h None w)))))
             (bytes b)
         \<and> ((\<forall>c \<in> set (js_String (snd (resolve rt h None w))). c \<notin> {CHR ''&'', CHR 0x22, CHR 0x27, CHR ''<'', CHR ''>'', CHR ''\<newline>''})
              \<and> \<not> sublist ''  '' (js_String (snd (resolve rt h None w))) \<longrightarrow>
            sublist (js_String (snd (resolve rt h None w))) (bytes b)
          \<and> sublist (req_method (req w)) (bytes b)
          \<and> sublist (case originalUrl (req w) of
              None \<Rightarrow> url (req w)
            | Some u \<Rightarrow> if u = [] then url (req w) else u)
               (bytes b)))
      \<and> (\<not> readable (req w) \<longrightarrow>
           statusCode (res (responder rt h None w)) = Some 404
         \<and> statusCode (res (responder_env rt h' None w)) = Some 404
         \<and> (req_method (req w) \<noteq> ''HEAD'' \<longrightarrow>
              last (effects (responder rt h None w)) = End (Some b)
            \<and> last (effects (responder_env rt h' None w)) = End (Some b)))
      \<and> (readable (req w) \<longrightarrow>
           statusCode (res (emit_end (responder rt h None w))) = Some 404
         \<and> statusCode (res (emit_end (responder_env rt h' None w))) = Some 404
         \<and> (req_method (req w) \<noteq> ''HEAD'' \<longrightarrow>
              last (effects (emit_end (responder rt h None w))) = End (Some b)
            \<and> last (effects (emit_end (responder_env rt h' None w))) = End (Some b)))))"
proof -
  let ?path = "(case originalUrl (req w) of
              None \<Rightarrow> url (req w)
            | Some u \<Rightarrow> if u = [] then url (req w) else u)"
  let ?msg = "''Cannot '' @ req_method (req w) @ '' '' @ ?path"
  let ?b = "constructBody rt (accepts_types rt (req w)) (Some 404) (Some ?msg)"
  have p: "or_default (originalUrl (req w)) (url (req w)) = ?path"
    by (cases "originalUrl (req w)") auto
  have r: "resolve rt h None w = (Some 404, Some ?msg)"
    by (simp add: resolve_def p)
  have s: "snd (resolve rt h None w) = Some ?msg"
    by (simp add: r)
  have j: "js_String (snd (resolve rt h None w)) = ?msg"
    by (simp add: r)
  have e: "statusCode (res (fst (resolve_env rt h' None w))) = Some 404"
    and e': "snd (resolve_env rt h' None w) = Some ?msg"
    and e0: "fst (resolve_env rt h' None w) = set_statusCode (Some 404) w"
    by (simp_all add: resolve_env_def set_statusCode_simps p)
  have m0: "sublist (req_method (req w)) ?msg"
    by (rule sublist_appendI)
  have "sublist ?path ((''Cannot '' @ req_method (req w) @ '' '') @ ?path)"
    by (rule sublist_append_leftI)
  then have u0: "sublist ?path ?msg"
    by simp
  have unsent: "\<exists>b. responder rt h None w = send (Some 404) b w
      \<and> responder_env rt h' None w = send (Some 404) b (set_statusCode (Some 404) w)
      \<and> (accepts_types rt (req w) \<noteq> Html \<longrightarrow>
           bytes b = js_String (snd (resolve rt h None w)) @ ''\<newline>''
         \<and> sublist (req_method (req w)) (bytes b)
         \<and> sublist (case originalUrl (req w) of
              None \<Rightarrow> url (req w)
            | Some u \<Rightarrow> if u = [] then url (req w) else u)
              (bytes b))
      \<and> (accepts_types rt (req w) = Html \<longrightarrow>
           sublist (replace_spaces (replace_newlines (escapeHtml (snd (resolve rt h None w)))))
             (bytes b)
         \<and> ((\<forall>c \<in> set (js_String (snd (resolve rt h None w))). c \<notin> {CHR ''&'', CHR 0x22, CHR 0x27, CHR ''<'', CHR ''>'', CHR ''\<newline>''})
              \<and> \<not> sublist ''  '' (js_String (snd (resolve rt h None w))) \<longrightarrow>
            sublist (js_String (snd (resolve rt h None w))) (bytes b)
          \<and> sublist (req_method (req w)) (bytes b)
          \<and> sublist (case originalUrl (req w) of
              None \<Rightarrow> url (req w)
            | Some u \<Rightarrow> if u = [] then url (req w) else u)
               (bytes b)))
      \<and> (\<not> readable (req w) \<longrightarrow>
           statusCode (res (responder rt h None w)) = Some 404
         \<and> statusCode (res (responder_env rt h' None w)) = Some 404
         \<and> (req_method (req w) \<noteq> ''HEAD'' \<longrightarrow>
              last (effects (responder rt h None w)) = End (Some b)
            \<and> last (effects (responder_env rt h' None w)) = End (Some b)))
      \<and> (readable (req w) \<longrightarrow>
           statusCode (res (emit_end (responder rt h None w))) = Some 404
         \<and> statusCode (res (emit_end (responder_env rt h' None w))) = Some 404
         \<and> (req_method (req w) \<noteq> ''HEAD'' \<longrightarrow>
              last (effects (emit_end (responder rt h None w))) = End (Some b)
            \<and> last (effects (emit_end (responder_env rt h' None w))) = End (Some b)))"
    if u: "\<not> header_sent (res w)"
  proof -
    have q: "req (set_statusCode (Some 404) w) = req w"
      by (simp add: set_statusCode_simps)
    have 1: "responder rt h None w = send (Some 404) ?b w"
      using responder_unsent [OF u, of rt h None] by (simp add: r schedule_onerror_def)
    have 2: "responder_env rt h' None w = send (Some 404) ?b (set_statusCode (Some 404) w)"
      using responder_env_unsent [OF u, of rt h' None]
      by (simp add: e0 e' schedule_onerror_def set_statusCode_simps)
    have t: "bytes ?b = ?msg @ ''\<newline>''" if "accepts_types rt (req w) \<noteq> Html"
      using that by (simp add: constructBody_cases constructTextBody_def)
    have 3: "accepts_types rt (req w) \<noteq> Html \<longrightarrow>
           bytes ?b = js_String (snd (resolve rt h None w)) @ ''\<newline>''
         \<and> sublist (req_method (req w)) (bytes ?b)
         \<and> sublist ?path (bytes ?b)"
    proof (intro impI)
      assume n: "accepts_types rt (req w) \<noteq> Html"
      have "sublist ?msg (?msg @ ''\<newline>'')"
        by (rule sublist_append_rightI)
      then have c: "sublist ?msg (bytes ?b)"
        unfolding t [OF n] .
      show "bytes ?b = js_String (snd (resolve rt h None w)) @ ''\<newline>''
         \<and> sublist (req_method (req w)) (bytes ?b)
         \<and> sublist ?path (bytes ?b)"
        unfolding j
        by (intro conjI t [OF n] sublist_of_sublist [OF m0 c] sublist_of_sublist [OF u0 c])
    qed
    have hb: "bytes (constructHtmlBody rt (Some 404) (Some ?msg)) =
      (''<!doctype html>\<newline><html lang=en>\<newline><head>\<newline><meta charset=utf-8>\<newline><title>''
        @ escapeHtml (status_text rt (Some 404)) @ ''</title>\<newline></head>\<newline><body>\<newline>'')
      @ replace_spaces (replace_newlines (escapeHtml (Some ?msg)))
      @ ''\<newline></body>\<newline>''"
      by (simp add: constructHtmlBody_def)
    have hs: "sublist (replace_spaces (replace_newlines (escapeHtml (Some ?msg))))
      (bytes (constructHtmlBody rt (Some 404) (Some ?msg)))"
      unfolding hb by (rule sublist_appendI)
    have 4: "accepts_types rt (req w) = Html \<longrightarrow>
           sublist (replace_spaces (replace_newlines (escapeHtml (snd (resolve rt h None w)))))
             (bytes ?b)
         \<and> ((\<forall>c \<in> set (js_String (snd (resolve rt h None w))). c \<notin> {CHR ''&'', CHR 0x22, CHR 0x27, CHR ''<'', CHR ''>'', CHR ''\<newline>''})
              \<and> \<not> sublist ''  '' (js_String (snd (resolve rt h None w))) \<longrightarrow>
            sublist (js_String (snd (resolve rt h None w))) (bytes ?b)
          \<and> sublist (req_method (req w)) (bytes ?b)
          \<and> sublist ?path (bytes ?b))"
    proof (intro impI)
      assume y: "accepts_types rt (req w) = Html"
      have b: "?b = constructHtmlBody rt (Some 404) (Some ?msg)"
        by (simp add: constructBody_cases y)
      have c: "sublist (replace_spaces (replace_newlines (escapeHtml (Some ?msg)))) (bytes ?b)"
        unfolding b by (rule hs)
      have d: "sublist ?msg (bytes ?b) \<and> sublist (req_method (req w)) (bytes ?b)
          \<and> sublist ?path (bytes ?b)"
        if "(\<forall>c \<in> set ?msg. c \<notin> {CHR ''&'', CHR 0x22, CHR 0x27, CHR ''<'', CHR ''>'', CHR ''\<newline>''}) \<and> \<not> sublist ''  '' ?msg"
      proof -
        have "replace_spaces (replace_newlines (escapeHtml (Some ?msg))) = ?msg"
          using that html_message_plain [of ?msg] by blast
        with c have k: "sublist ?msg (bytes ?b)"
          by (simp only:)
        show ?thesis
          by (intro conjI k sublist_of_sublist [OF m0 k] sublist_of_sublist [OF u0 k])
      qed
      show "sublist (replace_spaces (replace_newlines (escapeHtml (snd (resolve rt h None w)))))
             (bytes ?b)
         \<and> ((\<forall>c \<in> set (js_String (snd (resolve rt h None w))). c \<notin> {CHR ''&'', CHR 0x22, CHR 0x27, CHR ''<'', CHR ''>'', CHR ''\<newline>''})
              \<and> \<not> sublist ''  '' (js_String (snd (resolve rt h None w))) \<longrightarrow>
            sublist (js_String (snd (resolve rt h None w))) (bytes ?b)
          \<and> sublist (req_method (req w)) (bytes ?b)
          \<and> sublist ?path (bytes ?b))"
        unfolding s js_String.simps
        by (rule conjI [OF c]) (rule impI, rule d)
    qed
    have 5: "\<not> readable (req w) \<longrightarrow>
           statusCode (res (responder rt h None w)) = Some 404
         \<and> statusCode (res (responder_env rt h' None w)) = Some 404
         \<and> (req_method (req w) \<noteq> ''HEAD'' \<longrightarrow>
              last (effects (responder rt h None w)) = End (Some ?b)
            \<and> last (effects (responder_env rt h' None w)) = End (Some ?b))"
      unfolding 1 2
      by (simp add: send_status_now send_last_now q)
    have 6: "readable (req w) \<longrightarrow>
           statusCode (res (emit_end (responder rt h None w))) = Some 404
         \<and> statusCode (res (emit_end (responder_env rt h' None w))) = Some 404
         \<and> (req_method (req w) \<noteq> ''HEAD'' \<longrightarrow>
              last (effects (emit_end (responder rt h None w))) = End (Some ?b)
            \<and> last (effects (emit_end (responder_env rt h' None w))) = End (Some ?b))"
      unfolding 1 2
      by (simp add: send_status_at_end send_last_at_end q)
    have all: "responder rt h None w = send (Some 404) ?b w
      \<and> responder_env rt h' None w = send (Some 404) ?b (set_statusCode (Some 404) w)
      \<and> (accepts_types rt (req w) \<noteq> Html \<longrightarrow>
           bytes ?b = js_String (snd (resolve rt h None w)) @ ''\<newline>''
         \<and> sublist (req_method (req w)) (bytes ?b)
         \<and> sublist (case originalUrl (req w) of
              None \<Rightarrow> url (req w)
            | Some u \<Rightarrow> if u = [] then url (req w) else u)
              (bytes ?b))
      \<and> (accepts_types rt (req w) = Html \<longrightarrow>
           sublist (replace_spaces (replace_newlines (escapeHtml (snd (resolve rt h None w)))))
             (bytes ?b)
         \<and> ((\<forall>c \<in> set (js_String (snd (resolve rt h None w))). c \<notin> {CHR ''&'', CHR 0x22, CHR 0x27, CHR ''<'', CHR ''>'', CHR ''\<newline>''})
              \<and> \<not> sublist ''  '' (js_String (snd (resolve rt h None w))) \<longrightarrow>
            sublist (js_String (snd (resolve rt h None w))) (bytes ?b)
          \<and> sublist (req_method (req w)) (bytes ?b)
          \<and> sublist (case originalUrl (req w) of
              None \<Rightarrow> url (req w)
            | Some u \<Rightarrow> if u = [] then url (req w) else u)
               (bytes ?b)))
      \<and> (\<not> readable (req w) \<longrightarrow>
           statusCode (res (responder rt h None w)) = Some 404
         \<and> statusCode (res (responder_env rt h' None w)) = Some 404
         \<and> (req_method (req w) \<noteq> ''HEAD'' \<longrightarrow>
              last (effects (responder rt h None w)) = End (Some ?b)
            \<and> last (effects (responder_env rt h' None w)) = End (Some ?b)))
      \<and> (readable (req w) \<longrightarrow>
           statusCode (res (emit_end (responder rt h None w))) = Some 404
         \<and> statusCode (res (emit_end (responder_env rt h' None w))) = Some 404
         \<and> (req_method (req w) \<noteq> ''HEAD'' \<longrightarrow>
              last (effects (emit_end (responder rt h None w))) = End (Some ?b)
            \<and> last (effects (emit_end (responder_env rt h' None w))) = End (Some ?b)))"
      by (intro conjI 1 2 3 4 5 6)
    show ?thesis
      by (rule exI [where x = ?b]) (rule all)
  qed
  have e'': "snd (resolve_env rt h' None w) = snd (resolve rt h None w)"
    by (simp only: e' s)
  show ?thesis
    by (intro conjI impI r e e'') (rule unsent)
qed

theorem no_error_is_404_witness:
  "\<not> header_sent (res sample_world) \<and> \<not> readable (req sample_world)
   \<and> req_method (req sample_world) \<noteq> ''HEAD''
   \<and> accepts_types sample_runtime (req sample_world) \<noteq> Html
   \<and> resolve sample_runtime sample_handler None sample_world = (Some 404, Some ''Cannot GET /missing'')
   \<and> statusCode (res (responder sample_runtime sample_handler None sample_world)) = Some 404
   \<and> statusCode (res (responder_env sample_runtime sample_handler_env None sample_world)) = Some 404
   \<and> (\<exists>b. last (effects (responder sample_runtime sample_handler None sample_world)) = End (Some b)
          \<and> last (effects (responder_env sample_runtime sample_handler_env None sample_world))
              = End (Some b)
          \<and> bytes b = ''Cannot GET /missing\<newline>''
          \<and> sublist ''GET'' (bytes b) \<and> sublist ''/missing'' (bytes b))
   \<and> readable (req (sample_world\<lparr>req := sample_request\<lparr>readable := True\<rparr>\<rparr>))
   \<and> accepts_types (sample_runtime\<lparr>accepts_types := (\<lambda>r. Html)\<rparr>) (req (sample_world\<lparr>req := sample_request\<lparr>readable := True\<rparr>\<rparr>)) = Html
   \<and> \<not> sublist ''  '' ''Cannot GET /missing''
   \<and> (\<exists>b. last (effects (emit_end (responder (sample_runtime\<lparr>accepts_types := (\<lambda>r. Html)\<rparr>) sample_handler None
                (sample_world\<lparr>req := sample_request\<lparr>readable := True\<rparr>\<rparr>)))) = End (Some b)
          \<and> sublist ''Cannot GET /missing'' (bytes b))"
proof -
  note th1 = no_error_is_404 [of sample_runtime sample_handler sample_world sample_handler_env]
  note th2 = no_error_is_404 [of "(sample_runtime\<lparr>accepts_types := (\<lambda>r. Html)\<rparr>)" sample_handler
      "(sample_world\<lparr>req := sample_request\<lparr>readable := True\<rparr>\<rparr>)" sample_handler_env]
  have w1: "\<not> header_sent (res sample_world)" "\<not> readable (req sample_world)"
    "req_method (req sample_world) \<noteq> ''HEAD''"
    "accepts_types sample_runtime (req sample_world) \<noteq> Html"
    by (simp_all add: sample_world_def sample_request_def sample_runtime_def)
  have w2: "\<not> header_sent (res (sample_world\<lparr>req := sample_request\<lparr>readable := True\<rparr>\<rparr>))" "readable (req (sample_world\<lparr>req := sample_request\<lparr>readable := True\<rparr>\<rparr>))"
    "req_method (req (sample_world\<lparr>req := sample_request\<lparr>readable := True\<rparr>\<rparr>)) \<noteq> ''HEAD''"
    "accepts_types (sample_runtime\<lparr>accepts_types := (\<lambda>r. Html)\<rparr>) (req (sample_world\<lparr>req := sample_request\<lparr>readable := True\<rparr>\<rparr>)) = Html"
    by (simp_all add: sample_world_def sample_request_def)
  have r1: "resolve sample_runtime sample_handler None sample_world = (Some 404, Some ''Cannot GET /missing'')"
    using th1 [THEN conjunct1] by (simp add: sample_world_def sample_request_def)
  have r2: "resolve (sample_runtime\<lparr>accepts_types := (\<lambda>r. Html)\<rparr>) sample_handler None (sample_world\<lparr>req := sample_request\<lparr>readable := True\<rparr>\<rparr>)
      = (Some 404, Some ''Cannot GET /missing'')"
    using th2 [THEN conjunct1] by (simp add: sample_world_def sample_request_def)
  have sp: "\<not> sublist ''  '' ''Cannot GET /missing''"
    by (simp add: sublist_Cons_right)
  have safe: "\<forall>c \<in> set ''Cannot GET /missing''. c \<notin> {CHR ''&'', CHR 0x22, CHR 0x27, CHR ''<'', CHR ''>'', CHR ''\<newline>''}"
    by simp
  from th1 [THEN conjunct2, THEN conjunct2, THEN conjunct2, THEN mp, OF w1(1)]
  obtain b where B: "responder sample_runtime sample_handler None sample_world = send (Some 404) b sample_world
      \<and> responder_env sample_runtime sample_handler_env None sample_world = send (Some 404) b (set_statusCode (Some 404) sample_world)
      \<and> (accepts_types sample_runtime (req sample_world) \<noteq> Html \<longrightarrow>
           bytes b = js_String (snd (resolve sample_runtime sample_handler None sample_world)) @ ''\<newline>''
         \<and> sublist (req_method (req sample_world)) (bytes b)
         \<and> sublist (case originalUrl (req sample_world) of
              None \<Rightarrow> url (req sample_world)
            | Some u \<Rightarrow> if u = [] then url (req sample_world) else u)
              (bytes b))
      \<and> (accepts_types sample_runtime (req sample_world) = Html \<longrightarrow>
           sublist (replace_spaces (replace_newlines (escapeHtml (snd (resolve sample_runtime sample_handler None sample_world)))))
             (bytes b)
         \<and> ((\<forall>c \<in> set (js_String (snd (resolve sample_runtime sample_handler None sample_world))). c \<notin> {CHR ''&'', CHR 0x22, CHR 0x27, CHR ''<'', CHR ''>'', CHR ''\<newline>''})
              \<and> \<not> sublist ''  '' (js_String (snd (resolve sample_runtime sample_handler None sample_world))) \<longrightarrow>
            sublist (js_String (snd (resolve sample_runtime sample_handler None sample_world))) (bytes b)
          \<and> sublist (req_method (req sample_world)) (bytes b)
          \<and> sublist (case originalUrl (req sample_world) of
              None \<Rightarrow> url (req sample_world)
            | Some u \<Rightarrow> if u = [] then url (req sample_world) else u)
               (bytes b)))
      \<and> (\<not> readable (req sample_world) \<longrightarrow>
           statusCode (res (responder sample_runtime sample_handler None sample_world)) = Some 404
         \<and> statusCode (res (responder_env sample_runtime sample_handler_env None sample_world)) = Some 404
         \<and> (req_method (req sample_world) \<noteq> ''HEAD'' \<longrightarrow>
              last (effects (responder sample_runtime sample_handler None sample_world)) = End (Some b)
            \<and> last (effects (responder_env sample_runtime sample_handler_env None sample_world)) = End (Some b)))
      \<and> (readable (req sample_world) \<longrightarrow>
           statusCode (res (emit_end (responder sample_runtime sample_handler None sample_world))) = Some 404
         \<and> statusCode (res (emit_end (responder_env sample_runtime sample_handler_env None sample_world))) = Some 404
         \<and> (req_method (req sample_world) \<noteq> ''HEAD'' \<longrightarrow>
              last (effects (emit_end (responder sample_runtime sample_handler None sample_world))) = End (Some b)
            \<and> last (effects (emit_end (responder_env sample_runtime sample_handler_env None sample_world))) = End (Some b)))"
    by (rule exE)
  note B_text = B [THEN conjunct2, THEN conjunct2, THEN conjunct1, THEN mp, OF w1(4)]
  note B_now = B [THEN conjunct2, THEN conjunct2, THEN conjunct2, THEN conjunct2,
      THEN conjunct1, THEN mp, OF w1(2)]
  note B_last = B_now [THEN conjunct2, THEN conjunct2, THEN mp, OF w1(3)]
  have t: "bytes b = ''Cannot GET /missing\<newline>''"
    using B_text [THEN conjunct1] by (simp add: r1)
  have tm: "sublist ''GET'' (bytes b)"
    using B_text [THEN conjunct2, THEN conjunct1] by (simp add: sample_world_def sample_request_def)
  have tp: "sublist ''/missing'' (bytes b)"
    using B_text [THEN conjunct2, THEN conjunct2]
    by (simp add: sample_world_def sample_request_def)
  have E1: "\<exists>b. last (effects (responder sample_runtime sample_handler None sample_world)) = End (Some b)
          \<and> last (effects (responder_env sample_runtime sample_handler_env None sample_world))
              = End (Some b)
          \<and> bytes b = ''Cannot GET /missing\<newline>''
          \<and> sublist ''GET'' (bytes b) \<and> sublist ''/missing'' (bytes b)"
    by (rule exI [where x = b])
      (intro conjI B_last [THEN conjunct1] B_last [THEN conjunct2] t tm tp)
  from th2 [THEN conjunct2, THEN conjunct2, THEN conjunct2, THEN mp, OF w2(1)]
  obtain b' where B': "responder (sample_runtime\<lparr>accepts_types := (\<lambda>r. Html)\<rparr>) sample_handler None (sample_world\<lparr>req := sample_request\<lparr>readable := True\<rparr>\<rparr>) = send (Some 404) b' (sample_world\<lparr>req := sample_request\<lparr>readable := True\<rparr>\<rparr>)
      \<and> responder_env (sample_runtime\<lparr>accepts_types := (\<lambda>r. Html)\<rparr>) sample_handler_env None (sample_world\<lparr>req := sample_request\<lparr>readable := True\<rparr>\<rparr>) = send (Some 404) b' (set_statusCode (Some 404) (sample_world\<lparr>req := sample_request\<lparr>readable := True\<rparr>\<rparr>))
      \<and> (accepts_types (sample_runtime\<lparr>accepts_types := (\<lambda>r. Html)\<rparr>) (req (sample_world\<lparr>req := sample_request\<lparr>readable := True\<rparr>\<rparr>)) \<noteq> Html \<longrightarrow>
           bytes b' = js_String (snd (resolve (sample_runtime\<lparr>accepts_types := (\<lambda>r. Html)\<rparr>) sample_handler None (sample_world\<lparr>req := sample_request\<lparr>readable := True\<rparr>\<rparr>))) @ ''\<newline>''
         \<and> sublist (req_method (req (sample_world\<lparr>req := sample_request\<lparr>readable := True\<rparr>\<rparr>))) (bytes b')
         \<and> sublist (case originalUrl (req (sample_world\<lparr>req := sample_request\<lparr>readable := True\<rparr>\<rparr>)) of
              None \<Rightarrow> url (req (sample_world\<lparr>req := sample_request\<lparr>readable := True\<rparr>\<rparr>))
            | Some u \<Rightarrow> if u = [] then url (req (sample_world\<lparr>req := sample_request\<lparr>readable := True\<rparr>\<rparr>)) else u)
              (bytes b'))
      \<and> (accepts_types (sample_runtime\<lparr>accepts_types := (\<lambda>r. Html)\<rparr>) (req (sample_world\<lparr>req := sample_request\<lparr>readable := True\<rparr>\<rparr>)) = Html \<longrightarrow>
           sublist (replace_spaces (replace_newlines (escapeHtml (snd (resolve (sample_runtime\<lparr>accepts_types := (\<lambda>r. Html)\<rparr>) sample_handler None (sample_world\<lparr>req := sample_request\<lparr>readable := True\<rparr>\<rparr>))))))
             (bytes b')
         \<and> ((\<forall>c \<in> set (js_String (snd (resolve (sample_runtime\<lparr>accepts_types := (\<lambda>r. Html)\<rparr>) sample_handler None (sample_world\<lparr>req := sample_request\<lparr>readable := True\<rparr>\<rparr>)))). c \<notin> {CHR ''&'', CHR 0x22, CHR 0x27, CHR ''<'', CHR ''>'', CHR ''\<newline>''})
              \<and> \<not> sublist ''  '' (js_String (snd (resolve (sample_runtime\<lparr>accepts_types := (\<lambda>r. Html)\<rparr>) sample_handler None (sample_world\<lparr>req := sample_request\<lparr>readable := True\<rparr>\<rparr>)))) \<longrightarrow>
            sublist (js_String (snd (resolve (sample_runtime\<lparr>accepts_types := (\<lambda>r. Html)\<rparr>) sample_handler None (sample_world\<lparr>req := sample_request\<lparr>readable := True\<rparr>\<rparr>)))) (bytes b')
          \<and> sublist (req_method (req (sample_world\<lparr>req := sample_request\<lparr>readable := True\<rparr>\<rparr>))) (bytes b')
          \<and> sublist (case originalUrl (req (sample_world\<lparr>req := sample_request\<lparr>readable := True\<rparr>\<rparr>)) of
              None \<Rightarrow> url (req (sample_world\<lparr>req := sample_request\<lparr>readable := True\<rparr>\<rparr>))
            | Some u \<Rightarrow> if u = [] then url (req (sample_world\<lparr>req := sample_request\<lparr>readable := True\<rparr>\<rparr>)) else u)
               (bytes b')))
      \<and> (\<not> readable (req (sample_world\<lparr>req := sample_request\<lparr>readable := True\<rparr>\<rparr>)) \<longrightarrow>
           statusCode (res (responder (sample_runtime\<lparr>accepts_types := (\<lambda>r. Html)\<rparr>) sample_handler None (sample_world\<lparr>req := sample_request\<lparr>readable := True\<rparr>\<rparr>))) = Some 404
         \<and> statusCode (res (responder_env (sample_runtime\<lparr>accepts_types := (\<lambda>r. Html)\<rparr>) sample_handler_env None (sample_world\<lparr>req := sample_request\<lparr>readable := True\<rparr>\<rparr>))) = Some 404
         \<and> (req_method (req (sample_world\<lparr>req := sample_request\<lparr>readable := True\<rparr>\<rparr>)) \<noteq> ''HEAD'' \<longrightarrow>
              last (effects (responder (sample_runtime\<lparr>accepts_types := (\<lambda>r. Html)\<rparr>) sample_handler None (sample_world\<lparr>req := sample_request\<lparr>readable := True\<rparr>\<rparr>))) = End (Some b')
            \<and> last (effects (responder_env (sample_runtime\<lparr>accepts_types := (\<lambda>r. Html)\<rparr>) sample_handler_env None (sample_world\<lparr>req := sample_request\<lparr>readable := True\<rparr>\<rparr>))) = End (Some b')))
      \<and> (readable (req (sample_world\<lparr>req := sample_request\<lparr>readable := True\<rparr>\<rparr>)) \<longrightarrow>
           statusCode (res (emit_end (responder (sample_runtime\<lparr>accepts_types := (\<lambda>r. Html)\<rparr>) sample_handler None (sample_world\<lparr>req := sample_request\<lparr>readable := True\<rparr>\<rparr>)))) = Some 404
         \<and> statusCode (res (emit_end (responder_env (sample_runtime\<lparr>accepts_types := (\<lambda>r. Html)\<rparr>) sample_handler_env None (sample_world\<lparr>req := sample_request\<lparr>readable := True\<rparr>\<rparr>)))) = Some 404
         \<and> (req_method (req (sample_world\<lparr>req := sample_request\<lparr>readable := True\<rparr>\<rparr>)) \<noteq> ''HEAD'' \<longrightarrow>
              last (effects (emit_end (responder (sample_runtime\<lparr>accepts_types := (\<lambda>r. Html)\<rparr>) sample_handler None (sample_world\<lparr>req := sample_request\<lparr>readable := True\<rparr>\<rparr>)))) = End (Some b')
            \<and> last (effects (emit_end (responder_env (sample_runtime\<lparr>accepts_types := (\<lambda>r. Html)\<rparr>) sample_handler_env None (sample_world\<lparr>req := sample_request\<lparr>readable := True\<rparr>\<rparr>)))) = End (Some b')))"
    by (rule exE)
  note B_html = B' [THEN conjunct2, THEN conjunct2, THEN conjunct2, THEN conjunct1, THEN mp,
      OF w2(4)]
  note B_end = B' [THEN conjunct2, THEN conjunct2, THEN conjunct2, THEN conjunct2,
      THEN conjunct2, THEN mp, OF w2(2)]
  note B_end_last = B_end [THEN conjunct2, THEN conjunct2, THEN mp, OF w2(3)]
  have s2: "snd (resolve (sample_runtime\<lparr>accepts_types := (\<lambda>r. Html)\<rparr>) sample_handler None (sample_world\<lparr>req := sample_request\<lparr>readable := True\<rparr>\<rparr>))
      = Some ''Cannot GET /missing''"
    by (simp add: r2)
  have hm: "sublist ''Cannot GET /missing'' (bytes b')"
    using B_html [THEN conjunct2, unfolded s2 js_String.simps, THEN mp, OF conjI [OF safe sp]]
    by (rule conjunct1)
  have E2: "\<exists>b. last (effects (emit_end (responder (sample_runtime\<lparr>accepts_types := (\<lambda>r. Html)\<rparr>) sample_handler None
                (sample_world\<lparr>req := sample_request\<lparr>readable := True\<rparr>\<rparr>)))) = End (Some b)
          \<and> sublist ''Cannot GET /missing'' (bytes b)"
    by (rule exI [where x = b']) (intro conjI B_end_last [THEN conjunct1] hm)
  show ?thesis
    by (intro conjI w1 r1 B_now [THEN conjunct1] B_now [THEN conjunct2, THEN conjunct1] E1
          w2(2) w2(4) sp E2)
qed

end
